theory Spec2Isabelle
  imports Complex_Main "HOL-Library.Monad_Syntax"
begin

section \<open>Data model of \<open>Patch_experts.cpp\<close>\<close>

text \<open>
  The C++ \<open>int\<close> values of the source (indices, counts, sizes) are modelled as
  \<open>int\<close>; \<open>float\<close> and \<open>double\<close> values are modelled as \<open>real\<close>
  (rounding, infinities and NaN are outside the model). An access to a
  \<open>std::vector\<close> or a \<open>cv::Mat\<close> outside its bounds is undefined behaviour in C++; the
  model makes it the value \<open>None\<close>, so that every function whose source can read out of
  range returns an \<open>option\<close>.
\<close>

subsection \<open>Vectors and matrices\<close>

definition vec_at :: "'a list \<Rightarrow> int \<Rightarrow> 'a option" where
  "vec_at xs i = (if 0 \<le> i \<and> i < int (length xs) then Some (xs ! nat i) else None)"

text \<open>\<open>std::vector::resize\<close>: keeps the first \<open>n\<close> elements and pads with
  value-initialised ones.\<close>

definition resize :: "nat \<Rightarrow> 'a \<Rightarrow> 'a list \<Rightarrow> 'a list" where
  "resize n d xs = take n xs @ replicate (n - length xs) d"

text \<open>
  A \<open>cv::Mat\<close> is a header (\<open>rows\<close>, \<open>cols\<close>) with a pointer to its elements. The
  field \<open>data\<close> is the element block itself (row-major) where aliasing plays no role, and
  an address into an explicit store in the model of the copy constructor.
\<close>

record 'd Mat =
  rows :: int
  cols :: int
  data :: 'd

type_synonym imat = "int list Mat"
type_synonym fmat = "real list Mat"

text \<open>\<open>m.at<T>(i, j)\<close> and the one-index form \<open>m.at<T>(i)\<close> of a continuous matrix.\<close>

definition Mat_at :: "'a list Mat \<Rightarrow> int \<Rightarrow> int \<Rightarrow> 'a option" where
  "Mat_at m i j =
     (if 0 \<le> i \<and> i < rows m \<and> 0 \<le> j \<and> j < cols m
      then vec_at (data m) (i * cols m + j) else None)"

definition Mat_at1 :: "'a list Mat \<Rightarrow> int \<Rightarrow> 'a option" where
  "Mat_at1 m i = vec_at (data m) i"

type_synonym 'f Vec3 = "'f \<times> 'f \<times> 'f"
type_synonym 'f Vec6 = "'f \<times> 'f \<times> 'f \<times> 'f \<times> 'f \<times> 'f"
type_synonym Matx22 = "real \<times> real \<times> real \<times> real"

text \<open>The entries \<open>m(0,0)\<close> and \<open>m(0,1)\<close> of a \<open>cv::Matx22f\<close>, stored row by row.\<close>

definition Matx_00 :: "Matx22 \<Rightarrow> real" where
  "Matx_00 m = fst m"

definition Matx_01 :: "Matx22 \<Rightarrow> real" where
  "Matx_01 m = fst (snd m)"

subsection \<open>Loops\<close>

text \<open>A \<open>for\<close> loop over a list of indices whose body may run into undefined
  behaviour: the loop stops there with \<open>None\<close>.\<close>

fun for_each :: "'i list \<Rightarrow> ('i \<Rightarrow> 's \<Rightarrow> 's option) \<Rightarrow> 's \<Rightarrow> 's option" where
  "for_each [] body s = Some s"
| "for_each (i # is) body s =
     (case body i s of None \<Rightarrow> None | Some s' \<Rightarrow> for_each is body s')"

text \<open>The index range of \<open>for (int i = 0; i < n; i++)\<close>.\<close>

definition upto_n :: "int \<Rightarrow> int list" where
  "upto_n n = map int [0..<nat n]"

subsection \<open>The patch experts and the model store\<close>

text \<open>
  The three expert classes are declared outside this file. The model keeps the members
  that \<open>Patch_experts.cpp\<close> reads (\<open>width\<close>, \<open>height\<close>, and \<open>biases\<close> of a CEN
  expert, prefixed here by the class because record fields share one name space) and
  one field of an arbitrary type \<open>'p\<close> for everything else the expert has learned.
\<close>

record 'p Multi_SVR_patch_expert =
  svr_width :: int
  svr_height :: int
  svr_params :: 'p

record 'p CCNF_patch_expert =
  ccnf_width :: int
  ccnf_height :: int
  ccnf_params :: 'p

record ('df, 'p) CEN_patch_expert =
  cen_width :: int
  cen_height :: int
  biases :: "'df Mat list"
  cen_params :: 'p

text \<open>
  The members of \<open>Patch_experts\<close>. \<open>'di\<close> and \<open>'df\<close> are the element blocks of the
  integer and of the float matrices.
\<close>

record ('di, 'df, 'p) Patch_experts =
  patch_scaling :: "real list"
  centers :: "real Vec3 list list"
  visibilities :: "'di Mat list list"
  svr_expert_intensity :: "'p Multi_SVR_patch_expert list list list"
  ccnf_expert_intensity :: "'p CCNF_patch_expert list list list"
  cen_expert_intensity :: "('df, 'p) CEN_patch_expert list list list"
  sigma_components :: "'df Mat list list"
  early_term_weights :: "real list"
  early_term_biases :: "real list"
  early_term_cutoffs :: "real list"
  mirror_inds :: "'di Mat"
  mirror_views :: "'di Mat"

text \<open>\<open>xs[scale][view_id][ind]\<close> on the nested vectors.\<close>

definition at3 :: "'a list list list \<Rightarrow> int \<Rightarrow> int \<Rightarrow> int \<Rightarrow> 'a option" where
  "at3 xs scale view_id ind =
     do { a \<leftarrow> vec_at xs scale; b \<leftarrow> vec_at a view_id; vec_at b ind }"

definition at2 :: "'a list list \<Rightarrow> int \<Rightarrow> int \<Rightarrow> 'a option" where
  "at2 xs scale view_id = do { a \<leftarrow> vec_at xs scale; vec_at a view_id }"

section \<open>\<open>Collect_visible_landmarks\<close>\<close>

text \<open>The body of the loop, at index \<open>i\<close>, on the list \<open>vis_lmk\<close> built so far.\<close>

definition Collect_visible_landmarks_body ::
  "('di, 'df, 'p) Patch_experts \<Rightarrow> imat list list \<Rightarrow> int \<Rightarrow> int \<Rightarrow> int \<Rightarrow> int \<Rightarrow>
     int list \<Rightarrow> int list option" where
  "Collect_visible_landmarks_body P visibilities_arg scale view_id n i vis_lmk =
     do {
       vis \<leftarrow> at2 visibilities_arg scale view_id;
       if rows vis = n then
         do {
           v \<leftarrow> Mat_at vis i 0;
           if v \<noteq> 0 then
             (if cen_expert_intensity P \<noteq> [] then
                (if view_id = 0 then
                   do {
                     e \<leftarrow> at3 (cen_expert_intensity P) scale view_id i;
                     if biases e \<noteq> [] then Some (vis_lmk @ [i]) else Some vis_lmk
                   }
                 else Some (vis_lmk @ [i]))
              else Some (vis_lmk @ [i]))
           else Some vis_lmk
         }
       else Some vis_lmk
     }"

definition Collect_visible_landmarks ::
  "('di, 'df, 'p) Patch_experts \<Rightarrow> imat list list \<Rightarrow> int \<Rightarrow> int \<Rightarrow> int \<Rightarrow> int list option" where
  "Collect_visible_landmarks P visibilities_arg scale view_id n =
     for_each (upto_n n) (Collect_visible_landmarks_body P visibilities_arg scale view_id n) []"

section \<open>\<open>GetViewIdx\<close>\<close>

text \<open>Modelled from the spec: \<open>nViews\<close> is declared in the header, which is not part of
  the source at hand; the view count of a scale is the number of view centers stored
  for it.\<close>

definition nViews :: "'f Vec3 list list \<Rightarrow> int \<Rightarrow> int option" where
  "nViews centers_all scale = map_option (\<lambda>cs. int (length cs)) (vec_at centers_all scale)"

text \<open>The distance \<open>d\<close> that the loop computes from \<open>params_global\<close> and one center.\<close>

definition view_dist :: "'f::{plus,minus,times} Vec6 \<Rightarrow> 'f Vec3 \<Rightarrow> 'f" where
  "view_dist params_global c =
     (case params_global of (p0, p1, p2, p3, p4, p5) \<Rightarrow>
      case c of (c0, c1, c2) \<Rightarrow>
        let v1 = p1 - c0; v2 = p2 - c1; v3 = p3 - c2
        in v1 * v1 + v2 * v2 + v3 * v3)"

text \<open>
  The loop state is \<open>(idx, dbest)\<close>; \<open>dbest\<close> is \<open>None\<close> as long as the variable is
  uninitialised. The test \<open>i == 0 || d < dbest\<close> reads \<open>dbest\<close> only when \<open>i\<close> is not
  \<open>0\<close>.
\<close>

definition GetViewIdx_body ::
  "'f::{plus,minus,times,ord} Vec3 list list \<Rightarrow> 'f Vec6 \<Rightarrow> int \<Rightarrow> int \<Rightarrow>
     int \<times> 'f option \<Rightarrow> (int \<times> 'f option) option" where
  "GetViewIdx_body centers_all params_global scale i st =
     do {
       c \<leftarrow> at2 centers_all scale i;
       let d = view_dist params_global c;
       if i = 0 \<or> (case snd st of Some dbest \<Rightarrow> d < dbest | None \<Rightarrow> False)
       then Some (i, Some d) else Some st
     }"

definition GetViewIdx ::
  "'f::{plus,minus,times,ord} Vec3 list list \<Rightarrow> 'f Vec6 \<Rightarrow> int \<Rightarrow> int option" where
  "GetViewIdx centers_all params_global scale =
     do {
       nv \<leftarrow> nViews centers_all scale;
       st \<leftarrow> for_each (upto_n nv) (GetViewIdx_body centers_all params_global scale) (0, None);
       Some (fst st)
     }"

section \<open>\<open>Response\<close>\<close>

subsection \<open>The collaborators\<close>

text \<open>
  The shape model, the OpenCV primitives and the response computations of the three
  expert classes are defined outside this file. Each is a parameter of the model: a
  function from what the call reads to what it leaves in its output argument. An output
  argument that is passed by reference is also an input (its content before the call).
  \<open>Mat_new r c\<close> is the constructor \<open>cv::Mat_<float>(r, c)\<close>, whose elements are not
  initialised; \<open>norm_diff a b\<close> is \<open>cv::norm(a - b)\<close>.
\<close>

record ('img, 'pdm, 'p) externals =
  NumberOfPoints :: "'pdm \<Rightarrow> int"
  CalcShape2D :: "'pdm \<Rightarrow> fmat \<Rightarrow> real Vec6 \<Rightarrow> fmat"
  reshape_1_2_t :: "fmat \<Rightarrow> fmat"
  AlignShapesWithScale_f :: "fmat \<Rightarrow> fmat \<Rightarrow> Matx22"
  inv_LU :: "Matx22 \<Rightarrow> Matx22"
  ComputeSigmas :: "'p CCNF_patch_expert \<Rightarrow> fmat list \<Rightarrow> int \<Rightarrow> 'p CCNF_patch_expert"
  interpolationMatrix :: "int \<Rightarrow> int \<Rightarrow> int \<Rightarrow> int \<Rightarrow> fmat"
  Mat_new :: "int \<Rightarrow> int \<Rightarrow> fmat"
  cvGetQuadrangleSubPix :: "'img \<Rightarrow> fmat \<Rightarrow> fmat \<Rightarrow> fmat"
  CEN_ResponseSparse :: "(real list, 'p) CEN_patch_expert \<Rightarrow> fmat \<Rightarrow> fmat \<Rightarrow> fmat \<Rightarrow> fmat"
  CEN_ResponseSparse_mirror_joint ::
    "(real list, 'p) CEN_patch_expert \<Rightarrow> fmat \<Rightarrow> fmat \<Rightarrow> fmat \<Rightarrow> fmat \<Rightarrow> fmat \<Rightarrow> fmat \<times> fmat"
  CEN_ResponseSparse_mirror :: "(real list, 'p) CEN_patch_expert \<Rightarrow> fmat \<Rightarrow> fmat \<Rightarrow> fmat \<Rightarrow> fmat"
  CCNF_Response :: "'p CCNF_patch_expert \<Rightarrow> fmat \<Rightarrow> fmat \<Rightarrow> fmat"
  CCNF_ResponseOB :: "'p CCNF_patch_expert \<Rightarrow> fmat \<Rightarrow> fmat \<Rightarrow> fmat"
  SVR_Response :: "'p Multi_SVR_patch_expert \<Rightarrow> fmat \<Rightarrow> fmat \<Rightarrow> fmat"
  norm_diff :: "fmat \<Rightarrow> fmat \<Rightarrow> real"

text \<open>
  The calls that \<open>Response\<close> makes, in the order it makes them. An expert is named by
  its place \<open>scale view landmark\<close> in the collection, an entry of
  \<open>patch_expert_responses\<close> that a call receives by its index.
\<close>

datatype event =
    ComputeSigmas_call int int int "fmat list" int
  | interpolationMatrix_call int int int int
  | cvGetQuadrangleSubPix_call fmat int int
  | CEN_ResponseSparse_call int int int fmat int fmat
  | CEN_ResponseSparse_mirror_joint_call int int int fmat fmat int int fmat
  | CEN_ResponseSparse_mirror_call int int int fmat int fmat
  | CCNF_Response_call int int int fmat int
  | CCNF_ResponseOB_call int int int fmat
  | cout_norm real
  | SVR_Response_call int int int fmat int

type_synonym ('p) store = "(int list, real list, 'p) Patch_experts"

subsection \<open>Precomputation of the sigmas (CCNF)\<close>

text \<open>The search for the sigma components of the window size: the last entry whose first
  matrix has \<open>window_size * window_size\<close> rows.\<close>

definition select_sigma_components :: "fmat list list \<Rightarrow> int \<Rightarrow> fmat list" where
  "select_sigma_components scs window_size =
     fold (\<lambda>sc acc. if sc \<noteq> [] \<and> window_size * window_size = rows (hd sc) then sc else acc)
       scs []"

definition upd3 :: "'a list list list \<Rightarrow> int \<Rightarrow> int \<Rightarrow> int \<Rightarrow> 'a \<Rightarrow> 'a list list list" where
  "upd3 xs scale view_id ind y =
     xs[nat scale := (xs ! nat scale)
          [nat view_id := (xs ! nat scale ! nat view_id)[nat ind := y]]]"

definition ComputeSigmas_body ::
  "('img, 'pdm, 'p) externals \<Rightarrow> fmat list \<Rightarrow> int \<Rightarrow> int \<Rightarrow> int \<Rightarrow> int \<Rightarrow>
     'p store \<times> event list \<Rightarrow> ('p store \<times> event list) option" where
  "ComputeSigmas_body X sigmas window_size scale view_id lmark st =
     (case st of (P, calls) \<Rightarrow>
      do {
        vis \<leftarrow> at2 (visibilities P) scale view_id;
        v \<leftarrow> Mat_at vis lmark 0;
        if v \<noteq> 0 then
          do {
            e \<leftarrow> at3 (ccnf_expert_intensity P) scale view_id lmark;
            Some (P\<lparr>ccnf_expert_intensity :=
                      upd3 (ccnf_expert_intensity P) scale view_id lmark
                        (ComputeSigmas X e sigmas window_size)\<rparr>,
                  calls @ [ComputeSigmas_call scale view_id lmark sigmas window_size])
          }
        else Some (P, calls)
      })"

subsection \<open>One landmark\<close>

definition sampling_transform :: "real \<Rightarrow> real \<Rightarrow> real \<Rightarrow> real \<Rightarrow> fmat" where
  "sampling_transform a1 b1 x y = \<lparr>rows = 2, cols = 3, data = [a1, - b1, x, b1, a1, y]\<rparr>"

text \<open>The size of the area of interest: \<open>(width, height)\<close>.\<close>

definition area_of_interest_size :: "'p store \<Rightarrow> int \<Rightarrow> int \<Rightarrow> int \<Rightarrow> int \<Rightarrow> (int \<times> int) option" where
  "area_of_interest_size P window_size scale view_id ind =
     (if cen_expert_intensity P \<noteq> [] then
        do {
          e \<leftarrow> at3 (cen_expert_intensity P) scale view_id ind;
          Some (window_size + cen_width e - 1, window_size + cen_height e - 1)
        }
      else if ccnf_expert_intensity P \<noteq> [] then
        do {
          e \<leftarrow> at3 (ccnf_expert_intensity P) scale view_id ind;
          Some (window_size + ccnf_width e - 1, window_size + ccnf_height e - 1)
        }
      else
        do {
          e \<leftarrow> at3 (svr_expert_intensity P) scale view_id ind;
          Some (window_size + svr_width e - 1, window_size + svr_height e - 1)
        })"

text \<open>The body of the loop over \<open>vis_lmk\<close>, at the landmark \<open>ind\<close>. The state is the
  array \<open>patch_expert_responses\<close> and the calls made so far.\<close>

definition Response_landmark ::
  "('img, 'pdm, 'p) externals \<Rightarrow> 'p store \<Rightarrow> 'img \<Rightarrow> fmat \<Rightarrow> real \<Rightarrow> real \<Rightarrow> fmat \<Rightarrow>
     int \<Rightarrow> int \<Rightarrow> int \<Rightarrow> int \<Rightarrow> int \<Rightarrow> fmat list \<times> event list \<Rightarrow>
     (fmat list \<times> event list) option" where
  "Response_landmark X P grayscale_image landmark_locations a1 b1 interp_mat
       window_size scale view_id n ind st =
     (case st of (responses, calls) \<Rightarrow>
      do {
        (area_of_interest_width, area_of_interest_height) \<leftarrow>
          area_of_interest_size P window_size scale view_id ind;
        x \<leftarrow> Mat_at landmark_locations ind 0;
        y \<leftarrow> Mat_at landmark_locations (ind + n) 0;
        let sim = sampling_transform a1 b1 x y;
        let area_of_interest = cvGetQuadrangleSubPix X grayscale_image
              (Mat_new X area_of_interest_height area_of_interest_width) sim;
        let calls = calls @ [cvGetQuadrangleSubPix_call sim area_of_interest_height area_of_interest_width];
        if cen_expert_intensity P \<noteq> [] then
          (if view_id = 0 then
             do {
               e \<leftarrow> at3 (cen_expert_intensity P) scale view_id ind;
               if biases e \<noteq> [] then
                 do {
                   mirror_id \<leftarrow> Mat_at1 (mirror_inds P) ind;
                   if mirror_id = ind then
                     do {
                       r \<leftarrow> vec_at responses ind;
                       Some (responses[nat ind := CEN_ResponseSparse X e area_of_interest r interp_mat],
                             calls @ [CEN_ResponseSparse_call scale view_id ind area_of_interest ind interp_mat])
                     }
                   else
                     do {
                       x_r \<leftarrow> Mat_at landmark_locations mirror_id 0;
                       y_r \<leftarrow> Mat_at landmark_locations (mirror_id + n) 0;
                       let sim_r = sampling_transform a1 b1 x_r y_r;
                       let area_of_interest_r = cvGetQuadrangleSubPix X grayscale_image
                             (Mat_new X area_of_interest_height area_of_interest_width) sim_r;
                       r \<leftarrow> vec_at responses ind;
                       r_m \<leftarrow> vec_at responses mirror_id;
                       let (r', r_m') = CEN_ResponseSparse_mirror_joint X e
                             area_of_interest area_of_interest_r r r_m interp_mat;
                       Some (responses[nat ind := r', nat mirror_id := r_m'],
                             calls @ [cvGetQuadrangleSubPix_call sim_r area_of_interest_height area_of_interest_width,
                                    CEN_ResponseSparse_mirror_joint_call scale view_id ind
                                      area_of_interest area_of_interest_r ind mirror_id interp_mat])
                     }
                 }
               else Some (responses, calls)
             }
           else
             do {
               e \<leftarrow> at3 (cen_expert_intensity P) scale view_id ind;
               if biases e \<noteq> [] then
                 do {
                   r \<leftarrow> vec_at responses ind;
                   Some (responses[nat ind := CEN_ResponseSparse X e area_of_interest r interp_mat],
                         calls @ [CEN_ResponseSparse_call scale view_id ind area_of_interest ind interp_mat])
                 }
               else
                 do {
                   mirror_view \<leftarrow> Mat_at1 (mirror_views P) view_id;
                   mirror_id \<leftarrow> Mat_at1 (mirror_inds P) ind;
                   e_m \<leftarrow> at3 (cen_expert_intensity P) scale mirror_view mirror_id;
                   r \<leftarrow> vec_at responses ind;
                   Some (responses[nat ind := CEN_ResponseSparse_mirror X e_m area_of_interest r interp_mat],
                         calls @ [CEN_ResponseSparse_mirror_call scale mirror_view mirror_id
                                  area_of_interest ind interp_mat])
                 }
             })
        else if ccnf_expert_intensity P \<noteq> [] then
          do {
            _ \<leftarrow> vec_at responses ind;
            e \<leftarrow> at3 (ccnf_expert_intensity P) scale view_id ind;
            let r = CCNF_Response X e area_of_interest (Mat_new X window_size window_size);
            let placeholder = CCNF_ResponseOB X e area_of_interest (Mat_new X window_size window_size);
            Some (responses[nat ind := r],
                  calls @ [CCNF_Response_call scale view_id ind area_of_interest ind,
                         CCNF_ResponseOB_call scale view_id ind area_of_interest,
                         cout_norm (norm_diff X placeholder r)])
          }
        else
          do {
            _ \<leftarrow> vec_at responses ind;
            e \<leftarrow> at3 (svr_expert_intensity P) scale view_id ind;
            Some (responses[nat ind := SVR_Response X e area_of_interest (Mat_new X window_size window_size)],
                  calls @ [SVR_Response_call scale view_id ind area_of_interest ind])
          }
      })"

subsection \<open>The whole function\<close>

text \<open>The interpolation matrix of the CEN experts and the call that computes it.\<close>

definition precompute_interp_mat ::
  "('img, 'pdm, 'p) externals \<Rightarrow> bool \<Rightarrow> int \<Rightarrow> fmat \<times> event list" where
  "precompute_interp_mat X use_cen window_size =
     (if use_cen then
        (let support_region = 11;
             area_of_interest_width = window_size + support_region - 1;
             area_of_interest_height = window_size + support_region - 1;
             resp_size = area_of_interest_height - support_region + 1
         in (interpolationMatrix X resp_size resp_size area_of_interest_width area_of_interest_height,
             [interpolationMatrix_call resp_size resp_size area_of_interest_width area_of_interest_height]))
      else (\<lparr>rows = 0, cols = 0, data = []\<rparr>, []))"

text \<open>
  \<open>Response\<close> returns the response array, the two similarity transforms, the store
  (its CCNF experts may have computed their sigmas) and the calls it made.
\<close>

definition Response ::
  "('img, 'pdm, 'p) externals \<Rightarrow> 'p store \<Rightarrow> fmat list \<Rightarrow> 'img \<Rightarrow> 'pdm \<Rightarrow> real Vec6 \<Rightarrow> fmat \<Rightarrow>
     int \<Rightarrow> int \<Rightarrow> (fmat list \<times> Matx22 \<times> Matx22 \<times> 'p store \<times> event list) option" where
  "Response X P patch_expert_responses grayscale_image pdm params_global params_local
       window_size scale =
     do {
       view_id \<leftarrow> GetViewIdx (centers P) params_global scale;
       let n = NumberOfPoints X pdm;
       let landmark_locations = CalcShape2D X pdm params_local params_global;
       ps \<leftarrow> vec_at (patch_scaling P) scale;
       let global_ref = (ps, 0, 0, 0, 0, 0);
       let reference_shape = CalcShape2D X pdm params_local global_ref;
       let reference_shape_2D = reshape_1_2_t X reference_shape;
       let image_shape_2D = reshape_1_2_t X landmark_locations;
       let sim_img_to_ref = AlignShapesWithScale_f X image_shape_2D reference_shape_2D;
       let sim_ref_to_img = inv_LU X sim_img_to_ref;
       let a1 = Matx_00 sim_ref_to_img;
       let b1 = - Matx_01 sim_ref_to_img;
       let use_ccnf = (ccnf_expert_intensity P \<noteq> []);
       let use_cen = (cen_expert_intensity P \<noteq> []);
       (P1, calls1) \<leftarrow>
         (if use_ccnf then
            for_each (upto_n n)
              (ComputeSigmas_body X (select_sigma_components (sigma_components P) window_size)
                 window_size scale view_id)
              (P, [])
          else Some (P, []));
       let (interp_mat, calls2) = precompute_interp_mat X use_cen window_size;
       vis_lmk \<leftarrow> Collect_visible_landmarks P1 (visibilities P1) scale view_id n;
       (responses, calls3) \<leftarrow>
         for_each vis_lmk
           (Response_landmark X P1 grayscale_image landmark_locations a1 b1 interp_mat
              window_size scale view_id n)
           (patch_expert_responses, calls1 @ calls2);
       Some (responses, sim_ref_to_img, sim_img_to_ref, P1, calls3)
     }"

section \<open>Loading\<close>

subsection \<open>Files\<close>

text \<open>
  The stream primitives (\<open>>>\<close>, \<open>read\<close>, \<open>SkipComments\<close>, \<open>ReadMat\<close>, \<open>ReadMatBin\<close>
  and the \<open>Read\<close> of each expert class) are defined outside this file. A file is the
  sequence of values that these primitives deliver, in the order in which they are
  read; comments are not part of it. A path that cannot be opened has no file. A read
  that does not find the value it expects leaves the C++ variable without a defined
  value; the model stops there with \<open>None\<close>.
\<close>

datatype 'p token =
    Tok_double real
  | Tok_int int
  | Tok_mat_real fmat
  | Tok_mat_int imat
  | Tok_svr "'p Multi_SVR_patch_expert"
  | Tok_ccnf "'p CCNF_patch_expert"
  | Tok_cen "(real list, 'p) CEN_patch_expert"

type_synonym 'p files = "string \<Rightarrow> 'p token list option"

fun read_double :: "'p token list \<Rightarrow> (real \<times> 'p token list) option" where
  "read_double (Tok_double x # ts) = Some (x, ts)"
| "read_double _ = None"

fun read_int :: "'p token list \<Rightarrow> (int \<times> 'p token list) option" where
  "read_int (Tok_int x # ts) = Some (x, ts)"
| "read_int _ = None"

fun read_mat_real :: "'p token list \<Rightarrow> (fmat \<times> 'p token list) option" where
  "read_mat_real (Tok_mat_real x # ts) = Some (x, ts)"
| "read_mat_real _ = None"

fun read_mat_int :: "'p token list \<Rightarrow> (imat \<times> 'p token list) option" where
  "read_mat_int (Tok_mat_int x # ts) = Some (x, ts)"
| "read_mat_int _ = None"

fun read_svr :: "'p token list \<Rightarrow> ('p Multi_SVR_patch_expert \<times> 'p token list) option" where
  "read_svr (Tok_svr x # ts) = Some (x, ts)"
| "read_svr _ = None"

fun read_ccnf :: "'p token list \<Rightarrow> ('p CCNF_patch_expert \<times> 'p token list) option" where
  "read_ccnf (Tok_ccnf x # ts) = Some (x, ts)"
| "read_ccnf _ = None"

fun read_cen :: "'p token list \<Rightarrow> ((real list, 'p) CEN_patch_expert \<times> 'p token list) option" where
  "read_cen (Tok_cen x # ts) = Some (x, ts)"
| "read_cen _ = None"

text \<open>A loop that reads \<open>k\<close> values one after the other.\<close>

fun read_n :: "nat \<Rightarrow> ('s \<Rightarrow> ('a \<times> 's) option) \<Rightarrow> 's \<Rightarrow> ('a list \<times> 's) option" where
  "read_n 0 rd ts = Some ([], ts)"
| "read_n (Suc k) rd ts =
     (case rd ts of None \<Rightarrow> None
      | Some (x, ts') \<Rightarrow>
          (case read_n k rd ts' of None \<Rightarrow> None | Some (xs, ts'') \<Rightarrow> Some (x # xs, ts'')))"

definition M_PI :: real where
  "M_PI = 3.14159265358979323846"

text \<open>One view center: a matrix of three values in degrees, stored in radians.\<close>

definition read_center :: "'p token list \<Rightarrow> (real Vec3 \<times> 'p token list) option" where
  "read_center ts =
     do {
       (center, ts) \<leftarrow> read_mat_real ts;
       (case data center of
          [c0, c1, c2] \<Rightarrow> Some ((c0 * M_PI / 180, c1 * M_PI / 180, c2 * M_PI / 180), ts)
        | _ \<Rightarrow> None)
     }"

definition empty_Mat :: "'a list Mat" where
  "empty_Mat = \<lparr>rows = 0, cols = 0, data = []\<rparr>"

subsection \<open>The three loaders\<close>

text \<open>
  A loader receives \<open>centers\<close>, \<open>visibility\<close>, \<open>patches\<close> and \<open>scale\<close> by reference;
  the model takes their values on entry and returns their values on exit, with the
  lines printed on \<open>cout\<close>. The CCNF and the CEN loader also assign members of the
  store and return it.
\<close>

definition Read_SVR_patch_experts ::
  "'p files \<Rightarrow> string \<Rightarrow> real Vec3 list \<Rightarrow> imat list \<Rightarrow> 'p Multi_SVR_patch_expert list list \<Rightarrow> real \<Rightarrow>
     ((real Vec3 list \<times> imat list \<times> 'p Multi_SVR_patch_expert list list \<times> real) \<times> string list) option" where
  "Read_SVR_patch_experts fs expert_location centers_o visibility_o patches_o scale_o =
     (case fs expert_location of
        None \<Rightarrow> Some ((centers_o, visibility_o, patches_o, scale_o),
                      [''Can't find/open the patches file''])
      | Some ts \<Rightarrow>
          do {
            (scale_r, ts) \<leftarrow> read_double ts;
            (numberViews, ts) \<leftarrow> read_int ts;
            if numberViews < 0 then None
            else
              do {
                let centers_1 = resize (nat numberViews) (0, 0, 0) centers_o;
                let visibility_1 = resize (nat numberViews) empty_Mat visibility_o;
                let patches_1 = resize (nat numberViews) [] patches_o;
                (centers_2, ts) \<leftarrow> read_n (length centers_1) read_center ts;
                (visibility_2, ts) \<leftarrow> read_n (length visibility_1) read_mat_int ts;
                v0 \<leftarrow> vec_at visibility_2 0;
                let numberOfPoints = rows v0;
                if numberOfPoints < 0 then None
                else
                  do {
                    (patches_2, ts) \<leftarrow>
                      read_n (length patches_1) (read_n (nat numberOfPoints) read_svr) ts;
                    Some ((centers_2, visibility_2, patches_2, scale_r), [''Done''])
                  }
              }
          })"

text \<open>One entry of the window-size catalogue of a CCNF file: the size and its sigma
  components.\<close>

definition read_window :: "'p token list \<Rightarrow> ((int \<times> fmat list) \<times> 'p token list) option" where
  "read_window ts =
     do {
       (w, ts) \<leftarrow> read_int ts;
       (num_sigma_comp, ts) \<leftarrow> read_int ts;
       if num_sigma_comp < 0 then None
       else
         do {
           (ms, ts) \<leftarrow> read_n (nat num_sigma_comp) read_mat_real ts;
           Some ((w, ms), ts)
         }
     }"

definition Read_CCNF_patch_experts ::
  "'p files \<Rightarrow> string \<Rightarrow> 'p store \<Rightarrow> real Vec3 list \<Rightarrow> imat list \<Rightarrow> 'p CCNF_patch_expert list list \<Rightarrow> real \<Rightarrow>
     ((real Vec3 list \<times> imat list \<times> 'p CCNF_patch_expert list list \<times> real) \<times> 'p store \<times> string list) option" where
  "Read_CCNF_patch_experts fs patchesFileLocation this centers_o visibility_o patches_o patchScaling_o =
     (case fs patchesFileLocation of
        None \<Rightarrow> Some ((centers_o, visibility_o, patches_o, patchScaling_o), this,
                      [''Can't find/open the patches file''])
      | Some ts \<Rightarrow>
          do {
            (patchScaling_r, ts) \<leftarrow> read_double ts;
            (numberViews, ts) \<leftarrow> read_int ts;
            if numberViews < 0 then None
            else
              do {
                let centers_1 = resize (nat numberViews) (0, 0, 0) centers_o;
                let visibility_1 = resize (nat numberViews) empty_Mat visibility_o;
                let patches_1 = resize (nat numberViews) [] patches_o;
                (centers_2, ts) \<leftarrow> read_n (length centers_1) read_center ts;
                (visibility_2, ts) \<leftarrow> read_n (length visibility_1) read_mat_int ts;
                v0 \<leftarrow> vec_at visibility_2 0;
                let numberOfPoints = rows v0;
                (num_win_sizes, ts) \<leftarrow> read_int ts;
                if num_win_sizes < 0 \<or> numberOfPoints < 0 then None
                else
                  do {
                    (wins, ts) \<leftarrow> read_n (nat num_win_sizes) read_window ts;
                    let this_1 = this\<lparr>sigma_components := map snd wins\<rparr>;
                    (patches_2, ts) \<leftarrow>
                      read_n (length patches_1) (read_n (nat numberOfPoints) read_ccnf) ts;
                    Some ((centers_2, visibility_2, patches_2, patchScaling_r), this_1, [''Done''])
                  }
              }
          })"

definition Read_CEN_patch_experts ::
  "'p files \<Rightarrow> string \<Rightarrow> 'p store \<Rightarrow> real Vec3 list \<Rightarrow> imat list \<Rightarrow>
     (real list, 'p) CEN_patch_expert list list \<Rightarrow> real \<Rightarrow>
     ((real Vec3 list \<times> imat list \<times> (real list, 'p) CEN_patch_expert list list \<times> real) \<times> 'p store \<times> string list) option" where
  "Read_CEN_patch_experts fs expert_location this centers_o visibility_o patches_o scale_o =
     (case fs expert_location of
        None \<Rightarrow> Some ((centers_o, visibility_o, patches_o, scale_o), this,
                      [''Can't find/open the patches file''])
      | Some ts \<Rightarrow>
          do {
            (scale_r, ts) \<leftarrow> read_double ts;
            (numberViews, ts) \<leftarrow> read_int ts;
            if numberViews < 0 then None
            else
              do {
                let centers_1 = resize (nat numberViews) (0, 0, 0) centers_o;
                let visibility_1 = resize (nat numberViews) empty_Mat visibility_o;
                let patches_1 = resize (nat numberViews) [] patches_o;
                (centers_2, ts) \<leftarrow> read_n (length centers_1) read_center ts;
                (visibility_2, ts) \<leftarrow> read_n (length visibility_1) read_mat_int ts;
                v0 \<leftarrow> vec_at visibility_2 0;
                let numberOfPoints = rows v0;
                (mirror_inds_r, ts) \<leftarrow> read_mat_int ts;
                (mirror_views_r, ts) \<leftarrow> read_mat_int ts;
                let this_1 = this\<lparr>mirror_inds := mirror_inds_r, mirror_views := mirror_views_r\<rparr>;
                if numberOfPoints < 0 then None
                else
                  do {
                    (patches_2, ts) \<leftarrow>
                      read_n (length patches_1) (read_n (nat numberOfPoints) read_cen) ts;
                    Some ((centers_2, visibility_2, patches_2, scale_r), this_1, [''Done''])
                  }
              }
          })"

subsection \<open>\<open>Read\<close>\<close>

text \<open>The bodies of the three loops over the scales. The state is the store and the
  lines printed so far.\<close>

definition Read_SVR_scale ::
  "'p files \<Rightarrow> string list \<Rightarrow> int \<Rightarrow> 'p store \<times> string list \<Rightarrow> ('p store \<times> string list) option" where
  "Read_SVR_scale fs intensity_svr_expert_locations scale st =
     (case st of (P, out) \<Rightarrow>
      do {
        location \<leftarrow> vec_at intensity_svr_expert_locations scale;
        c \<leftarrow> vec_at (centers P) scale;
        v \<leftarrow> vec_at (visibilities P) scale;
        e \<leftarrow> vec_at (svr_expert_intensity P) scale;
        s \<leftarrow> vec_at (patch_scaling P) scale;
        ((c', v', e', s'), msg) \<leftarrow> Read_SVR_patch_experts fs location c v e s;
        Some (P\<lparr>centers := (centers P)[nat scale := c'],
                visibilities := (visibilities P)[nat scale := v'],
                svr_expert_intensity := (svr_expert_intensity P)[nat scale := e'],
                patch_scaling := (patch_scaling P)[nat scale := s']\<rparr>,
              out @ [''Reading the intensity SVR patch experts from: '' @ location @ ''....''] @ msg)
      })"

definition Read_CCNF_scale ::
  "'p files \<Rightarrow> string list \<Rightarrow> int \<Rightarrow> 'p store \<times> string list \<Rightarrow> ('p store \<times> string list) option" where
  "Read_CCNF_scale fs intensity_ccnf_expert_locations scale st =
     (case st of (P, out) \<Rightarrow>
      do {
        location \<leftarrow> vec_at intensity_ccnf_expert_locations scale;
        c \<leftarrow> vec_at (centers P) scale;
        v \<leftarrow> vec_at (visibilities P) scale;
        e \<leftarrow> vec_at (ccnf_expert_intensity P) scale;
        s \<leftarrow> vec_at (patch_scaling P) scale;
        ((c', v', e', s'), P', msg) \<leftarrow> Read_CCNF_patch_experts fs location P c v e s;
        Some (P'\<lparr>centers := (centers P')[nat scale := c'],
                 visibilities := (visibilities P')[nat scale := v'],
                 ccnf_expert_intensity := (ccnf_expert_intensity P')[nat scale := e'],
                 patch_scaling := (patch_scaling P')[nat scale := s']\<rparr>,
              out @ [''Reading the intensity CCNF patch experts from: '' @ location @ ''....''] @ msg)
      })"

definition Read_CEN_scale ::
  "'p files \<Rightarrow> string list \<Rightarrow> int \<Rightarrow> 'p store \<times> string list \<Rightarrow> ('p store \<times> string list) option" where
  "Read_CEN_scale fs intensity_cen_expert_locations scale st =
     (case st of (P, out) \<Rightarrow>
      do {
        location \<leftarrow> vec_at intensity_cen_expert_locations scale;
        c \<leftarrow> vec_at (centers P) scale;
        v \<leftarrow> vec_at (visibilities P) scale;
        e \<leftarrow> vec_at (cen_expert_intensity P) scale;
        s \<leftarrow> vec_at (patch_scaling P) scale;
        ((c', v', e', s'), P', msg) \<leftarrow> Read_CEN_patch_experts fs location P c v e s;
        Some (P'\<lparr>centers := (centers P')[nat scale := c'],
                 visibilities := (visibilities P')[nat scale := v'],
                 cen_expert_intensity := (cen_expert_intensity P')[nat scale := e'],
                 patch_scaling := (patch_scaling P')[nat scale := s']\<rparr>,
              out @ [''Reading the intensity CEN patch experts from: '' @ location @ ''....''] @ msg)
      })"

text \<open>
  The early termination parameters. A file that cannot be opened delivers no value,
  like an empty one.
\<close>

definition Read_early_term :: "'p files \<Rightarrow> string \<Rightarrow> 'p store \<Rightarrow> 'p store option" where
  "Read_early_term fs early_term_loc P =
     (if early_term_loc \<noteq> [] then
        do {
          c0 \<leftarrow> vec_at (centers P) 0;
          let ts = (case fs early_term_loc of None \<Rightarrow> [] | Some ts \<Rightarrow> ts);
          (weights, ts) \<leftarrow> read_n (length c0) read_double ts;
          (biases_r, ts) \<leftarrow> read_n (length c0) read_double ts;
          (cutoffs, ts) \<leftarrow> read_n (length c0) read_double ts;
          Some (P\<lparr>early_term_weights := early_term_weights P @ weights,
                  early_term_biases := early_term_biases P @ biases_r,
                  early_term_cutoffs := early_term_cutoffs P @ cutoffs\<rparr>)
        }
      else Some P)"

definition Read ::
  "'p files \<Rightarrow> 'p store \<Rightarrow> string list \<Rightarrow> string list \<Rightarrow> string list \<Rightarrow> string \<Rightarrow>
     ('p store \<times> string list) option" where
  "Read fs P intensity_svr_expert_locations intensity_ccnf_expert_locations
       intensity_cen_expert_locations early_term_loc =
     do {
       let num_intensity_svr = length intensity_svr_expert_locations;
       let P = P\<lparr>centers := resize num_intensity_svr [] (centers P),
                 visibilities := resize num_intensity_svr [] (visibilities P),
                 patch_scaling := resize num_intensity_svr 0 (patch_scaling P),
                 svr_expert_intensity := resize num_intensity_svr [] (svr_expert_intensity P)\<rparr>;
       (P, out) \<leftarrow> for_each (upto_n (int num_intensity_svr))
                     (Read_SVR_scale fs intensity_svr_expert_locations) (P, []);
       let num_intensity_ccnf = length intensity_ccnf_expert_locations;
       let P = (if num_intensity_ccnf > 0
                then P\<lparr>centers := resize num_intensity_ccnf [] (centers P),
                       visibilities := resize num_intensity_ccnf [] (visibilities P),
                       patch_scaling := resize num_intensity_ccnf 0 (patch_scaling P),
                       ccnf_expert_intensity := resize num_intensity_ccnf [] (ccnf_expert_intensity P)\<rparr>
                else P);
       (P, out) \<leftarrow> for_each (upto_n (int num_intensity_ccnf))
                     (Read_CCNF_scale fs intensity_ccnf_expert_locations) (P, out);
       let num_intensity_cen = length intensity_cen_expert_locations;
       let P = (if num_intensity_cen > 0
                then P\<lparr>centers := resize num_intensity_cen [] (centers P),
                       visibilities := resize num_intensity_cen [] (visibilities P),
                       patch_scaling := resize num_intensity_cen 0 (patch_scaling P),
                       cen_expert_intensity := resize num_intensity_cen [] (cen_expert_intensity P)\<rparr>
                else P);
       (P, out) \<leftarrow> for_each (upto_n (int num_intensity_cen))
                     (Read_CEN_scale fs intensity_cen_expert_locations) (P, out);
       P \<leftarrow> Read_early_term fs early_term_loc P;
       Some (P, out)
     }"

section \<open>The copy constructor\<close>

text \<open>
  Copying a \<open>cv::Mat\<close> copies the header and shares the element block; \<open>clone\<close>
  allocates a new block. For the copy constructor the element blocks live in a store:
  the field \<open>data\<close> of a matrix is an address, \<open>blocks\<close> gives the block at each
  address and \<open>next_free\<close> is the next address that an allocation returns. The members
  \<open>mirror_inds\<close> and \<open>mirror_views\<close> are matrices of \<open>int\<close>: the source reads them
  with \<open>at<int>\<close> and fills them with \<open>ReadMatBin\<close>.
\<close>

datatype block = Ints "int list" | Floats "real list"

record heap =
  blocks :: "nat \<Rightarrow> block"
  next_free :: nat

definition clone :: "heap \<Rightarrow> nat Mat \<Rightarrow> nat Mat \<times> heap" where
  "clone h m =
     (m\<lparr>data := next_free h\<rparr>,
      h\<lparr>blocks := (blocks h)(next_free h := blocks h (data m)), next_free := Suc (next_free h)\<rparr>)"

text \<open>A loop that copies the elements of a vector one after the other, each with
  \<open>cp\<close>.\<close>

fun copy_each :: "(heap \<Rightarrow> 'a \<Rightarrow> 'a \<times> heap) \<Rightarrow> heap \<Rightarrow> 'a list \<Rightarrow> 'a list \<times> heap" where
  "copy_each cp h [] = ([], h)"
| "copy_each cp h (x # xs) =
     (case cp h x of (y, h') \<Rightarrow> case copy_each cp h' xs of (ys, h'') \<Rightarrow> (y # ys, h''))"

text \<open>The copy constructors of the three expert classes are defined outside this
  file.\<close>

record 'p expert_copies =
  copy_svr :: "heap \<Rightarrow> 'p Multi_SVR_patch_expert \<Rightarrow> 'p Multi_SVR_patch_expert \<times> heap"
  copy_ccnf :: "heap \<Rightarrow> 'p CCNF_patch_expert \<Rightarrow> 'p CCNF_patch_expert \<times> heap"
  copy_cen :: "heap \<Rightarrow> (nat, 'p) CEN_patch_expert \<Rightarrow> (nat, 'p) CEN_patch_expert \<times> heap"

definition Patch_experts_copy ::
  "'p expert_copies \<Rightarrow> heap \<Rightarrow> (nat, nat, 'p) Patch_experts \<Rightarrow> (nat, nat, 'p) Patch_experts \<times> heap" where
  "Patch_experts_copy K h other =
     (case copy_each (copy_each (copy_each (copy_svr K))) h (svr_expert_intensity other) of (svr, h) \<Rightarrow>
      case copy_each (copy_each (copy_each (copy_ccnf K))) h (ccnf_expert_intensity other) of (ccnf, h) \<Rightarrow>
      case copy_each (copy_each (copy_each (copy_cen K))) h (cen_expert_intensity other) of (cen, h) \<Rightarrow>
      case copy_each (copy_each clone) h (sigma_components other) of (sigmas, h) \<Rightarrow>
      case copy_each (copy_each clone) h (visibilities other) of (vis, h) \<Rightarrow>
        (\<lparr>patch_scaling = patch_scaling other,
          centers = centers other,
          visibilities = vis,
          svr_expert_intensity = svr,
          ccnf_expert_intensity = ccnf,
          cen_expert_intensity = cen,
          sigma_components = sigmas,
          early_term_weights = early_term_weights other,
          early_term_biases = early_term_biases other,
          early_term_cutoffs = early_term_cutoffs other,
          mirror_inds = mirror_inds other,
          mirror_views = mirror_views other\<rparr>, h))"

text \<open>Reading and writing one element through a matrix header:
  \<open>m.at<int>(i)\<close> and \<open>m.at<int>(i) = v\<close>.\<close>

definition heap_at :: "heap \<Rightarrow> nat Mat \<Rightarrow> nat \<Rightarrow> int option" where
  "heap_at h m i =
     (case blocks h (data m) of Ints xs \<Rightarrow> if i < length xs then Some (xs ! i) else None
      | Floats _ \<Rightarrow> None)"

definition heap_assign :: "heap \<Rightarrow> nat Mat \<Rightarrow> nat \<Rightarrow> int \<Rightarrow> heap" where
  "heap_assign h m i v =
     (case blocks h (data m) of
        Ints xs \<Rightarrow> h\<lparr>blocks := (blocks h)(data m := Ints (xs[i := v]))\<rparr>
      | Floats _ \<Rightarrow> h)"

section \<open>Notions used in the statements\<close>

text \<open>The visibility vector marks landmark \<open>i\<close>: \<open>vis.at<int>(i, 0) != 0\<close>.\<close>

definition visible_at :: "imat \<Rightarrow> int \<Rightarrow> bool" where
  "visible_at vis i = (case Mat_at vis i 0 of Some v \<Rightarrow> v \<noteq> 0 | None \<Rightarrow> False)"

text \<open>The CEN expert of landmark \<open>i\<close> has parameters of its own: its \<open>biases\<close> are not
  empty.\<close>

definition has_parameters :: "('di, 'df, 'p) Patch_experts \<Rightarrow> int \<Rightarrow> int \<Rightarrow> int \<Rightarrow> bool" where
  "has_parameters P scale view_id i =
     (case at3 (cen_expert_intensity P) scale view_id i of
        Some e \<Rightarrow> biases e \<noteq> [] | None \<Rightarrow> False)"

definition needs_response :: "('di, 'df, 'p) Patch_experts \<Rightarrow> imat \<Rightarrow> int \<Rightarrow> int \<Rightarrow> int \<Rightarrow> bool" where
  "needs_response P vis scale view_id i \<longleftrightarrow>
     visible_at vis i \<and>
     (cen_expert_intensity P = [] \<or> view_id \<noteq> 0 \<or> has_parameters P scale view_id i)"

text \<open>The three representations, and the one that the tests of \<open>Response\<close> select:
  CEN if its collection is not empty, else CCNF if its collection is not empty, else
  SVR.\<close>

datatype representation = SVR | CCNF | CEN

definition active_representation :: "('di, 'df, 'p) Patch_experts \<Rightarrow> representation" where
  "active_representation P =
     (if cen_expert_intensity P \<noteq> [] then CEN
      else if ccnf_expert_intensity P \<noteq> [] then CCNF else SVR)"

text \<open>The call that fills the response map of a landmark: its representation and the
  index of the response entry it receives first.\<close>

fun dispatch_of :: "event \<Rightarrow> (representation \<times> int) option" where
  "dispatch_of (CEN_ResponseSparse_call s v i aoi slot im) = Some (CEN, slot)"
| "dispatch_of (CEN_ResponseSparse_mirror_joint_call s v i aoi aoi_r slot slot_m im) = Some (CEN, slot)"
| "dispatch_of (CEN_ResponseSparse_mirror_call s v i aoi slot im) = Some (CEN, slot)"
| "dispatch_of (CCNF_Response_call s v i aoi slot) = Some (CCNF, slot)"
| "dispatch_of (SVR_Response_call s v i aoi slot) = Some (SVR, slot)"
| "dispatch_of _ = None"

text \<open>The interpolation matrix that a sparse response call receives.\<close>

fun interp_arg :: "event \<Rightarrow> fmat option" where
  "interp_arg (CEN_ResponseSparse_call s v i aoi slot im) = Some im"
| "interp_arg (CEN_ResponseSparse_mirror_joint_call s v i aoi aoi_r slot slot_m im) = Some im"
| "interp_arg (CEN_ResponseSparse_mirror_call s v i aoi slot im) = Some im"
| "interp_arg _ = None"

fun is_ComputeSigmas_call :: "event \<Rightarrow> bool" where
  "is_ComputeSigmas_call (ComputeSigmas_call s v i sc w) = True"
| "is_ComputeSigmas_call _ = False"

fun is_interpolationMatrix_call :: "event \<Rightarrow> bool" where
  "is_interpolationMatrix_call (interpolationMatrix_call a b c d) = True"
| "is_interpolationMatrix_call _ = False"

section \<open>Example stores\<close>

definition empty_store :: "'p store" where
  "empty_store =
     \<lparr>patch_scaling = [], centers = [], visibilities = [],
      svr_expert_intensity = [], ccnf_expert_intensity = [], cen_expert_intensity = [],
      sigma_components = [], early_term_weights = [], early_term_biases = [],
      early_term_cutoffs = [], mirror_inds = empty_Mat, mirror_views = empty_Mat\<rparr>"

definition column :: "'a list \<Rightarrow> 'a list Mat" where
  "column xs = \<lparr>rows = int (length xs), cols = 1, data = xs\<rparr>"

definition cen_expert :: "(real list, unit) CEN_patch_expert" where
  "cen_expert = \<lparr>cen_width = 11, cen_height = 11, biases = [column [0]], cen_params = ()\<rparr>"

definition cen_placeholder :: "(real list, unit) CEN_patch_expert" where
  "cen_placeholder = \<lparr>cen_width = 11, cen_height = 11, biases = [], cen_params = ()\<rparr>"

text \<open>One scale with a frontal and a profile view and three landmarks; landmarks 1 and
  2 mirror each other, landmark 0 is its own mirror.\<close>

definition cen_store :: "unit store" where
  "cen_store = empty_store
     \<lparr>patch_scaling := [1],
      centers := [[(0, 0, 0), (0, 1 / 2, 0)]],
      visibilities := [[column [1, 1, 1], column [1, 0, 1]]],
      cen_expert_intensity := [[[cen_expert, cen_expert, cen_placeholder],
                               [cen_expert, cen_placeholder, cen_placeholder]]],
      mirror_inds := column [0, 2, 1],
      mirror_views := column [0, 1]\<rparr>"

text \<open>Collaborators for the examples. The area of interest that
  \<open>cvGetQuadrangleSubPix\<close> returns holds the sampling transform, so that it shows where
  it was taken; the response of each kind of call has its own number of rows.\<close>

definition example_externals :: "(unit, unit, unit) externals" where
  "example_externals =
     \<lparr>NumberOfPoints = (\<lambda>_. 3),
      CalcShape2D = (\<lambda>_ _ _. column [10, 20, 30, 11, 21, 31]),
      reshape_1_2_t = (\<lambda>m. m),
      AlignShapesWithScale_f = (\<lambda>_ _. (1, 0, 0, 1)),
      inv_LU = (\<lambda>m. m),
      ComputeSigmas = (\<lambda>e _ _. e),
      interpolationMatrix = (\<lambda>a b c d. \<lparr>rows = a * b, cols = c * d, data = []\<rparr>),
      Mat_new = (\<lambda>r c. \<lparr>rows = r, cols = c, data = []\<rparr>),
      cvGetQuadrangleSubPix = (\<lambda>_ dst sim. dst\<lparr>data := data sim\<rparr>),
      CEN_ResponseSparse = (\<lambda>_ aoi _ _. \<lparr>rows = 1, cols = 1, data = data aoi\<rparr>),
      CEN_ResponseSparse_mirror_joint =
        (\<lambda>_ aoi aoi_r _ _ _. (\<lparr>rows = 2, cols = 1, data = data aoi\<rparr>,
                               \<lparr>rows = 2, cols = 2, data = data aoi_r\<rparr>)),
      CEN_ResponseSparse_mirror = (\<lambda>_ aoi _ _. \<lparr>rows = 3, cols = 1, data = data aoi\<rparr>),
      CCNF_Response = (\<lambda>_ aoi _. \<lparr>rows = 4, cols = 1, data = data aoi\<rparr>),
      CCNF_ResponseOB = (\<lambda>_ aoi _. \<lparr>rows = 5, cols = 1, data = data aoi\<rparr>),
      SVR_Response = (\<lambda>_ aoi _. \<lparr>rows = 6, cols = 1, data = data aoi\<rparr>),
      norm_diff = (\<lambda>_ _. 0)\<rparr>"

definition ccnf_expert :: "unit CCNF_patch_expert" where
  "ccnf_expert = \<lparr>ccnf_width = 11, ccnf_height = 11, ccnf_params = ()\<rparr>"

definition svr_expert :: "unit Multi_SVR_patch_expert" where
  "svr_expert = \<lparr>svr_width = 11, svr_height = 11, svr_params = ()\<rparr>"

definition ccnf_store :: "unit store" where
  "ccnf_store = empty_store
     \<lparr>patch_scaling := [1],
      centers := [[(0, 0, 0)]],
      visibilities := [[column [1, 0, 1]]],
      svr_expert_intensity := [[[svr_expert, svr_expert, svr_expert]]],
      ccnf_expert_intensity := [[[ccnf_expert, ccnf_expert, ccnf_expert]]]\<rparr>"

definition blank_responses :: "fmat list" where
  "blank_responses = replicate 3 empty_Mat"



text \<open>Files for the examples: an SVR model with one view and two landmarks, a CEN model
  with two views and three landmarks, and six early termination values.\<close>

definition example_files :: "unit files" where
  "example_files name =
     (if name = ''svr.txt'' then
        Some [Tok_double 1, Tok_int 1, Tok_mat_real (column [0, 0, 0]), Tok_mat_int (column [1, 1]),
              Tok_svr svr_expert, Tok_svr svr_expert]
      else if name = ''cen.dat'' then
        Some [Tok_double 1, Tok_int 2,
              Tok_mat_real (column [0, 0, 0]), Tok_mat_real (column [0, 30, 0]),
              Tok_mat_int (column [1, 1, 1]), Tok_mat_int (column [1, 0, 1]),
              Tok_mat_int (column [0, 2, 1]), Tok_mat_int (column [0, 1]),
              Tok_cen cen_expert, Tok_cen cen_expert, Tok_cen cen_placeholder,
              Tok_cen cen_expert, Tok_cen cen_placeholder, Tok_cen cen_placeholder]
      else if name = ''early.txt'' then
        Some [Tok_double 1, Tok_double 2, Tok_double 3, Tok_double 4, Tok_double 5, Tok_double 6]
      else None)"

text \<open>Runs of \<open>Response\<close> and of \<open>Read\<close> on the examples.\<close>

definition cen_run ::
  "(fmat list \<times> Matx22 \<times> Matx22 \<times> unit store \<times> event list) option" where
  "cen_run = Response example_externals cen_store blank_responses () () (1, 0, 0, 0, 0, 0) empty_Mat 3 0"

definition ccnf_run ::
  "(fmat list \<times> Matx22 \<times> Matx22 \<times> unit store \<times> event list) option" where
  "ccnf_run = Response example_externals ccnf_store blank_responses () () (1, 0, 0, 0, 0, 0) empty_Mat 3 0"

definition example_load :: "(unit store \<times> string list) option" where
  "example_load = Read example_files empty_store [''svr.txt''] [] [''cen.dat''] ''early.txt''"


text \<open>A store in the heap model: the matrices \<open>mirror_inds\<close>, \<open>mirror_views\<close>, one
  visibility vector and one sigma component at the addresses 0 to 3.\<close>

definition example_heap :: heap where
  "example_heap =
     \<lparr>blocks = (\<lambda>a. if a = 0 then Ints [0, 2, 1] else if a = 1 then Ints [0, 1]
                    else if a = 2 then Ints [1, 1, 1] else if a = 3 then Floats [1, 2, 3, 4]
                    else Ints []),
      next_free = 4\<rparr>"

definition heap_store :: "(nat, nat, unit) Patch_experts" where
  "heap_store =
     \<lparr>patch_scaling = [1], centers = [[(0, 0, 0)]],
      visibilities = [[\<lparr>rows = 3, cols = 1, data = 2\<rparr>]],
      svr_expert_intensity = [], ccnf_expert_intensity = [], cen_expert_intensity = [],
      sigma_components = [[\<lparr>rows = 2, cols = 2, data = 3\<rparr>]],
      early_term_weights = [], early_term_biases = [], early_term_cutoffs = [],
      mirror_inds = \<lparr>rows = 3, cols = 1, data = 0\<rparr>,
      mirror_views = \<lparr>rows = 2, cols = 1, data = 1\<rparr>\<rparr>"

definition plain_copies :: "unit expert_copies" where
  "plain_copies = \<lparr>copy_svr = (\<lambda>h e. (e, h)), copy_ccnf = (\<lambda>h e. (e, h)), copy_cen = (\<lambda>h e. (e, h))\<rparr>"

definition copied :: "(nat, nat, unit) Patch_experts \<times> heap" where
  "copied = Patch_experts_copy plain_copies example_heap heap_store"

section \<open>Properties\<close>

subsection \<open>Vectors and loops\<close>

lemma vec_at_Some_iff:
  "vec_at xs i = Some x \<longleftrightarrow> 0 \<le> i \<and> i < int (length xs) \<and> x = xs ! nat i"
  by (auto simp: vec_at_def)


lemma at3_at2:
  "at3 xs scale view_id i =
     (case at2 xs scale view_id of None \<Rightarrow> None | Some es \<Rightarrow> vec_at es i)"
  by (simp add: at3_def at2_def split: Option.bind_split)

lemma for_each_append:
  "for_each (xs @ ys) body s =
     (case for_each xs body s of None \<Rightarrow> None | Some s' \<Rightarrow> for_each ys body s')"
  by (induction xs arbitrary: s) (auto split: option.splits)

lemma for_each_filter:
  "(\<And>i s. i \<in> set js \<Longrightarrow> body i s = Some (if c i then s @ [i] else s)) \<Longrightarrow>
   for_each js body s = Some (s @ filter c js)"
  by (induction js arbitrary: s) auto

lemma upto_n_Suc: "upto_n (int (Suc k)) = upto_n (int k) @ [int k]"
  unfolding upto_n_def nat_int by simp

lemma for_each_upto_n_Suc:
  "for_each (upto_n (int (Suc k))) body s =
     (case for_each (upto_n (int k)) body s of None \<Rightarrow> None | Some s' \<Rightarrow> body (int k) s')"
  by (simp add: upto_n_Suc for_each_append del: of_nat_Suc split: option.splits)

lemma set_upto_n: "i \<in> set (upto_n n) \<longleftrightarrow> 0 \<le> i \<and> i < n"
proof
  assume "i \<in> set (upto_n n)"
  then obtain j where "i = int j" "j < nat n" by (auto simp: upto_n_def)
  then show "0 \<le> i \<and> i < n" by simp
next
  assume a: "0 \<le> i \<and> i < n"
  then have "nat i < nat n" "i = int (nat i)" by simp_all
  then show "i \<in> set (upto_n n)" unfolding upto_n_def
    by (metis atLeastLessThan_iff image_eqI list.set_map set_upt zero_le)
qed

lemma sorted_upto_n: "sorted_wrt (<) (upto_n n)"
  by (simp add: upto_n_def sorted_wrt_map sorted_wrt_upt)

lemma Mat_at_col0:
  assumes "0 \<le> i" "i < rows m" "1 \<le> cols m" "length (data m) = nat (rows m * cols m)"
  shows "Mat_at m i 0 = Some (data m ! nat (i * cols m))"
proof -
  have "i * cols m < rows m * cols m"
    using assms by (intro mult_strict_right_mono) auto
  moreover have "0 \<le> i * cols m" using assms by simp
  ultimately show ?thesis using assms by (simp add: Mat_at_def vec_at_def)
qed

subsection \<open>\<open>Collect_visible_landmarks\<close>\<close>

lemma Collect_body_eq:
  assumes vis: "at2 V scale view_id = Some vis" and r: "rows vis = n"
    and c: "1 \<le> cols vis" and l: "length (data vis) = nat (rows vis * cols vis)"
    and cen: "cen_expert_intensity P \<noteq> [] \<Longrightarrow> view_id = 0 \<Longrightarrow>
       \<exists>es. at2 (cen_expert_intensity P) scale 0 = Some es \<and> n \<le> int (length es)"
    and i: "i \<in> set (upto_n n)"
  shows "Collect_visible_landmarks_body P V scale view_id n i s =
     Some (if needs_response P vis scale view_id i then s @ [i] else s)"
proof -
  from i have i0: "0 \<le> i" "i < n" by (simp_all add: set_upto_n)
  then obtain v where v: "Mat_at vis i 0 = Some v"
    using Mat_at_col0[OF _ _ c l, of i] r by auto
  show ?thesis
  proof (cases "cen_expert_intensity P \<noteq> [] \<and> view_id = 0")
    case True
    then obtain es where es: "at2 (cen_expert_intensity P) scale 0 = Some es" "n \<le> int (length es)"
      using cen by blast
    then have "at3 (cen_expert_intensity P) scale 0 i = Some (es ! nat i)"
      using i0 by (simp add: at3_at2 vec_at_def)
    then show ?thesis using True vis r v
      by (simp add: Collect_visible_landmarks_body_def needs_response_def visible_at_def
          has_parameters_def)
  next
    case False
    then show ?thesis using vis r v
      by (auto simp add: Collect_visible_landmarks_body_def needs_response_def visible_at_def
          has_parameters_def)
  qed
qed

lemma Collect_eq_filter:
  assumes vis: "at2 V scale view_id = Some vis" and r: "rows vis = n"
    and c: "1 \<le> cols vis" and l: "length (data vis) = nat (rows vis * cols vis)"
    and cen: "cen_expert_intensity P \<noteq> [] \<Longrightarrow> view_id = 0 \<Longrightarrow>
       \<exists>es. at2 (cen_expert_intensity P) scale 0 = Some es \<and> n \<le> int (length es)"
  shows "Collect_visible_landmarks P V scale view_id n =
     Some (filter (needs_response P vis scale view_id) (upto_n n))"
  unfolding Collect_visible_landmarks_def
  using for_each_filter[where s="[]" and js="upto_n n"
      and body="Collect_visible_landmarks_body P V scale view_id n"
      and c="needs_response P vis scale view_id"]
    Collect_body_eq[OF assms]
  by simp

text \<open>
  Claim C2, as amended. When the visibility matrix at \<open>(scale, view_id)\<close> has exactly
  \<open>n\<close> rows (and is a well-formed matrix with a column 0, and, for a frontal view with
  CEN experts loaded, the store has an expert for each of the \<open>n\<close> landmarks), the list
  that \<open>Collect_visible_landmarks\<close> returns is strictly ascending, and an index \<open>i\<close> is
  a member if and only if \<open>0 \<le> i < n\<close>, the visibility is nonzero at \<open>i\<close>, and no CEN
  expert is loaded, or the view is not frontal, or the CEN expert of \<open>i\<close> has
  non-empty biases.
\<close>

theorem Collect_visible_landmarks_members:
  assumes vis: "at2 V scale view_id = Some vis" and r: "rows vis = n"
    and c: "1 \<le> cols vis" and l: "length (data vis) = nat (rows vis * cols vis)"
    and cen: "cen_expert_intensity P \<noteq> [] \<Longrightarrow> view_id = 0 \<Longrightarrow>
       \<exists>es. at2 (cen_expert_intensity P) scale 0 = Some es \<and> n \<le> int (length es)"
  shows "\<exists>xs. Collect_visible_landmarks P V scale view_id n = Some xs \<and> sorted_wrt (<) xs \<and>
    (\<forall>i. i \<in> set xs \<longleftrightarrow> 0 \<le> i \<and> i < n \<and> visible_at vis i \<and>
     (cen_expert_intensity P = [] \<or> view_id \<noteq> 0 \<or> has_parameters P scale view_id i))"
  using Collect_eq_filter[OF assms] sorted_upto_n[of n]
  by (auto simp: set_upto_n needs_response_def sorted_wrt_filter)

text \<open>Witness for C2: the frontal view of the example store; landmark 2 is left to its
  mirror partner.\<close>

theorem Collect_visible_landmarks_members_witness:
  "at2 (visibilities cen_store) 0 0 = Some (column [1, 1, 1]) \<and>
   (\<exists>xs. Collect_visible_landmarks cen_store (visibilities cen_store) 0 0 3 = Some xs \<and>
      sorted_wrt (<) xs \<and>
      (\<forall>i. i \<in> set xs \<longleftrightarrow> 0 \<le> i \<and> i < 3 \<and> visible_at (column [1, 1, 1]) i \<and>
       (cen_expert_intensity cen_store = [] \<or> (0::int) \<noteq> 0 \<or> has_parameters cen_store 0 0 i)))"
proof -
  have v: "at2 (visibilities cen_store) 0 0 = Some (column [1, 1, 1])"
    by (simp add: cen_store_def at2_def vec_at_def)
  have e: "\<exists>es. at2 (cen_expert_intensity cen_store) 0 0 = Some es \<and> 3 \<le> int (length es)"
    by (simp add: cen_store_def at2_def vec_at_def)
  show ?thesis
    using v Collect_visible_landmarks_members[OF v, of 3 cen_store] e by (simp add: column_def)
qed

text \<open>Counterexample to C2 as stated: a visibility vector of three rows, all visible, no
  CEN expert loaded, and \<open>n = 2\<close>. Index 0 satisfies the condition of the claim, and the
  list returned is empty.\<close>

theorem Collect_visible_landmarks_counterexample:
  "Collect_visible_landmarks (empty_store :: unit store) [[column [1, 1, 1]]] 0 0 2 = Some [] \<and>
   \<not> ((0::int) \<in> set [] \<longleftrightarrow>
        0 \<le> (0::int) \<and> (0::int) < 2 \<and> visible_at (column [1, 1, 1]) 0 \<and>
        (cen_expert_intensity (empty_store :: unit store) = [] \<or> (0::int) \<noteq> 0
          \<or> has_parameters (empty_store :: unit store) 0 0 0))"
  by (simp add: Collect_visible_landmarks_def Collect_visible_landmarks_body_def empty_store_def
      upto_n_def upt_conv_Cons at2_def vec_at_def Mat_at_def column_def visible_at_def)

text \<open>
  Claim C9. If the visibility matrix at \<open>(scale, view_id)\<close> has a number of rows
  different from \<open>n\<close>, \<open>Collect_visible_landmarks\<close> returns the empty list, whatever
  the visibility values and the loaded experts are.
\<close>

theorem Collect_visible_landmarks_rows_mismatch:
  assumes "at2 V scale view_id = Some vis" "rows vis \<noteq> n"
  shows "Collect_visible_landmarks P V scale view_id n = Some []"
  unfolding Collect_visible_landmarks_def
  using for_each_filter[where s="[]" and js="upto_n n"
      and body="Collect_visible_landmarks_body P V scale view_id n"
      and c="\<lambda>_. False"] assms
  by (simp add: Collect_visible_landmarks_body_def)

text \<open>Witness for C9: three rows and \<open>n = 2\<close>.\<close>

theorem Collect_visible_landmarks_rows_mismatch_witness:
  "at2 [[column [1, 1, 1::int]]] 0 0 = Some (column [1, 1, 1]) \<and>
   rows (column [1, 1, 1::int]) \<noteq> 2 \<and>
   Collect_visible_landmarks (empty_store :: unit store) [[column [1, 1, 1]]] 0 0 2 = Some []"
proof -
  have v: "at2 [[column [1, 1, 1::int]]] 0 0 = Some (column [1, 1, 1::int])"
    by (simp add: at2_def vec_at_def)
  have r: "rows (column [1, 1, 1::int]) \<noteq> 2" by (simp add: column_def)
  show ?thesis
    using v r Collect_visible_landmarks_rows_mismatch[OF v r, of "empty_store :: unit store"]
    by simp
qed

subsection \<open>\<open>GetViewIdx\<close>\<close>





subsection \<open>Loops with an invariant\<close>

lemma for_each_invariant:
  assumes "for_each js body s = Some s'" "I s"
    and "\<And>i s s'. i \<in> set js \<Longrightarrow> I s \<Longrightarrow> body i s = Some s' \<Longrightarrow> I s'"
  shows "I s'"
  using assms
proof (induction js arbitrary: s)
  case Nil
  then show ?case by simp
next
  case (Cons j js)
  from Cons.prems(1) obtain s1 where s1: "body j s = Some s1" "for_each js body s1 = Some s'"
    by (auto split: option.splits)
  have "I s1" using Cons.prems(2,3) s1(1) by auto
  then show ?case using Cons.IH[OF s1(2)] Cons.prems(3) by auto
qed

lemma for_each_calls:
  assumes "for_each js body (r, c) = Some (r', c')"
    and "\<And>i r c r' c'. i \<in> set js \<Longrightarrow> body i (r, c) = Some (r', c') \<Longrightarrow> \<exists>evs. c' = c @ evs \<and> R i evs"
  shows "\<exists>evss. c' = c @ concat evss \<and> list_all2 R js evss"
  using assms
proof (induction js arbitrary: r c)
  case Nil
  then show ?case by simp
next
  case (Cons j js)
  from Cons.prems(1) obtain r1 c1 where s1: "body j (r, c) = Some (r1, c1)"
    "for_each js body (r1, c1) = Some (r', c')"
    by (auto split: option.splits)
  from Cons.prems(2)[OF _ s1(1)] obtain evs where evs: "c1 = c @ evs" "R j evs" by auto
  from Cons.IH[OF s1(2)] Cons.prems(2) obtain evss where
    "c' = c1 @ concat evss" "list_all2 R js evss" by (metis list.set_intros(2))
  then show ?case using evs by (intro exI[of _ "evs # evss"]) simp
qed

lemma for_each_frame:
  assumes "for_each js body (P, out) = Some (P', out')"
    and "\<And>i P out P' out'. body i (P, out) = Some (P', out') \<Longrightarrow> f P' = f P"
  shows "f P' = f P"
proof -
  have "(\<lambda>st. f (fst st) = f P) (P', out')"
    by (rule for_each_invariant[OF assms(1)]) (use assms(2) in \<open>auto simp: split_paired_all\<close>)
  then show ?thesis by simp
qed

lemma for_each_ran:
  assumes "for_each js body s = Some s'" "i \<in> set js"
  shows "\<exists>s1 s2. body i s1 = Some s2"
  using assms
  by (induction js arbitrary: s) (auto split: option.splits)

lemma sorted_wrt_less_distinct: "sorted_wrt (<) (xs :: int list) \<Longrightarrow> distinct xs"
  by (induction xs) auto

lemma for_each_slots:
  assumes "for_each js body (r, c) = Some (r', c')" "distinct js"
    and "\<And>i r c r' c'. i \<in> set js \<Longrightarrow> body i (r, c) = Some (r', c') \<Longrightarrow>
           0 \<le> i \<and> i < int (length r) \<and> r' = r[nat i := f i]"
  shows "length r' = length r \<and> (\<forall>i\<in>set js. r' ! nat i = f i) \<and>
         (\<forall>k. int k \<notin> set js \<longrightarrow> r' ! k = r ! k)"
  using assms
proof (induction js arbitrary: r c)
  case Nil
  then show ?case by simp
next
  case (Cons j js)
  from Cons.prems(1) obtain r1 c1 where s1: "body j (r, c) = Some (r1, c1)"
    "for_each js body (r1, c1) = Some (r', c')"
    by (auto split: option.splits)
  from Cons.prems(3)[OF _ s1(1)] have j: "0 \<le> j" "j < int (length r)" "r1 = r[nat j := f j]"
    by auto
  have ih: "length r' = length r1" "\<forall>i\<in>set js. r' ! nat i = f i"
    "\<forall>k. int k \<notin> set js \<longrightarrow> r' ! k = r1 ! k"
    using Cons.IH[OF s1(2)] Cons.prems(2,3) by (simp_all add: list.set_intros(2))
  have "int (nat j) \<notin> set js" using j Cons.prems(2) by simp
  then have "r' ! nat j = f j" using ih(3) j by simp
  moreover have "r' ! k = r ! k" if "int k \<notin> set (j # js)" for k
  proof -
    from that have "int k \<notin> set js" "k \<noteq> nat j" using j by auto
    then show ?thesis using ih(3) j(3) by simp
  qed
  ultimately show ?case using ih j by auto
qed

subsection \<open>The precomputation of the sigmas\<close>

lemma upd3_Nil_iff: "upd3 xs s v i y = [] \<longleftrightarrow> xs = []"
  by (simp add: upd3_def)

lemma ComputeSigmas_body_frame:
  assumes "ComputeSigmas_body X sg ws scale view_id lmark (P, c) = Some (P', c')"
  shows "cen_expert_intensity P' = cen_expert_intensity P \<and> visibilities P' = visibilities P \<and>
     svr_expert_intensity P' = svr_expert_intensity P \<and> mirror_inds P' = mirror_inds P \<and>
     mirror_views P' = mirror_views P \<and>
     (ccnf_expert_intensity P' = [] \<longleftrightarrow> ccnf_expert_intensity P = []) \<and>
     (\<exists>evs. c' = c @ evs \<and> (\<forall>e\<in>set evs. is_ComputeSigmas_call e))"
  using assms unfolding ComputeSigmas_body_def
  by (auto split: Option.bind_splits if_splits simp: upd3_Nil_iff)

lemma ComputeSigmas_phase_frame:
  assumes "for_each js (ComputeSigmas_body X sg ws scale view_id) (P, []) = Some (P1, calls1)"
  shows "cen_expert_intensity P1 = cen_expert_intensity P \<and> visibilities P1 = visibilities P \<and>
     svr_expert_intensity P1 = svr_expert_intensity P \<and> mirror_inds P1 = mirror_inds P \<and>
     mirror_views P1 = mirror_views P \<and>
     (ccnf_expert_intensity P1 = [] \<longleftrightarrow> ccnf_expert_intensity P = []) \<and>
     (\<forall>e\<in>set calls1. is_ComputeSigmas_call e)"
proof -
  let ?I = "\<lambda>st. case st of (P', c) \<Rightarrow>
     cen_expert_intensity P' = cen_expert_intensity P \<and> visibilities P' = visibilities P \<and>
     svr_expert_intensity P' = svr_expert_intensity P \<and> mirror_inds P' = mirror_inds P \<and>
     mirror_views P' = mirror_views P \<and>
     (ccnf_expert_intensity P' = [] \<longleftrightarrow> ccnf_expert_intensity P = []) \<and>
     (\<forall>e\<in>set c. is_ComputeSigmas_call e)"
  have "?I (P1, calls1)"
  proof (rule for_each_invariant[OF assms, of ?I])
    show "?I (P, [])" by simp
  next
    fix i s s'
    assume "?I s" "ComputeSigmas_body X sg ws scale view_id i s = Some s'"
    then show "?I s'"
      using ComputeSigmas_body_frame[of X sg ws scale view_id i "fst s" "snd s" "fst s'" "snd s'"]
      by (cases s; cases s') auto
  qed
  then show ?thesis by simp
qed

subsection \<open>What every run of \<open>Collect_visible_landmarks\<close> returns\<close>

lemma Collect_cong:
  assumes "cen_expert_intensity P' = cen_expert_intensity P"
  shows "Collect_visible_landmarks P' V scale view_id n = Collect_visible_landmarks P V scale view_id n"
  unfolding Collect_visible_landmarks_def Collect_visible_landmarks_body_def assms ..

lemma Collect_body_cases:
  assumes "Collect_visible_landmarks_body P V scale view_id n i s = Some s'"
  shows "s' = s \<or> (s' = s @ [i] \<and>
           (cen_expert_intensity P \<noteq> [] \<and> view_id = 0 \<longrightarrow> has_parameters P scale 0 i))"
  using assms unfolding Collect_visible_landmarks_body_def has_parameters_def
  by (auto split: Option.bind_splits if_splits)

lemma Collect_prefix:
  assumes "for_each (upto_n (int k)) (Collect_visible_landmarks_body P V scale view_id n) [] = Some xs"
  shows "sorted_wrt (<) xs \<and>
     (\<forall>i\<in>set xs. 0 \<le> i \<and> i < int k \<and>
        (cen_expert_intensity P \<noteq> [] \<and> view_id = 0 \<longrightarrow> has_parameters P scale 0 i))"
  using assms
proof (induction k arbitrary: xs)
  case 0
  then show ?case by (simp add: upto_n_def)
next
  case (Suc k)
  from Suc.prems obtain ys where
    ys: "for_each (upto_n (int k)) (Collect_visible_landmarks_body P V scale view_id n) [] = Some ys"
    and b: "Collect_visible_landmarks_body P V scale view_id n (int k) ys = Some xs"
    unfolding for_each_upto_n_Suc by (auto split: option.splits)
  from Suc.IH[OF ys] have ih: "sorted_wrt (<) ys"
    "\<forall>i\<in>set ys. 0 \<le> i \<and> i < int k \<and>
        (cen_expert_intensity P \<noteq> [] \<and> view_id = 0 \<longrightarrow> has_parameters P scale 0 i)"
    by simp_all
  from Collect_body_cases[OF b] show ?case
  proof
    assume "xs = ys"
    then show ?thesis using ih by auto
  next
    assume "xs = ys @ [int k] \<and>
           (cen_expert_intensity P \<noteq> [] \<and> view_id = 0 \<longrightarrow> has_parameters P scale 0 (int k))"
    then show ?thesis using ih by (auto simp: sorted_wrt_append)
  qed
qed

lemma upto_n_nat: "upto_n n = upto_n (int (nat n))"
  by (simp add: upto_n_def)

lemma Collect_Some:
  assumes "Collect_visible_landmarks P V scale view_id n = Some xs"
  shows "sorted_wrt (<) xs \<and>
     (\<forall>i\<in>set xs. 0 \<le> i \<and> i < n \<and>
        (cen_expert_intensity P \<noteq> [] \<and> view_id = 0 \<longrightarrow> has_parameters P scale 0 i))"
proof -
  have "for_each (upto_n (int (nat n))) (Collect_visible_landmarks_body P V scale view_id n) [] = Some xs"
    using assms unfolding Collect_visible_landmarks_def upto_n_nat[of n] .
  from Collect_prefix[OF this] show ?thesis by (auto split: if_splits)
qed

subsection \<open>One landmark of \<open>Response\<close>\<close>



lemma Response_landmark_ccnf:
  assumes "cen_expert_intensity P = []" "ccnf_expert_intensity P \<noteq> []"
    and "Response_landmark X P img ll a1 b1 im ws scale view_id n ind (r, c) = Some (r', c')"
  shows "\<exists>e x y. at3 (ccnf_expert_intensity P) scale view_id ind = Some e \<and>
      Mat_at ll ind 0 = Some x \<and> Mat_at ll (ind + n) 0 = Some y \<and>
      0 \<le> ind \<and> ind < int (length r) \<and>
      (let h = ws + ccnf_height e - 1; w = ws + ccnf_width e - 1;
           sim = sampling_transform a1 b1 x y;
           aoi = cvGetQuadrangleSubPix X img (Mat_new X h w) sim;
           resp = CCNF_Response X e aoi (Mat_new X ws ws);
           placeholder = CCNF_ResponseOB X e aoi (Mat_new X ws ws)
       in r' = r[nat ind := resp] \<and>
          c' = c @ [cvGetQuadrangleSubPix_call sim h w,
                    CCNF_Response_call scale view_id ind aoi ind,
                    CCNF_ResponseOB_call scale view_id ind aoi,
                    cout_norm (norm_diff X placeholder resp)])"
  using assms
  by (auto simp: Response_landmark_def area_of_interest_size_def Let_def vec_at_def
      split: Option.bind_splits if_splits)

lemma Response_landmark_calls:
  assumes "Response_landmark X P img ll a1 b1 im ws scale view_id n ind (r, c) = Some (r', c')"
    and "cen_expert_intensity P \<noteq> [] \<and> view_id = 0 \<longrightarrow> has_parameters P scale 0 ind"
  shows "\<exists>evs. c' = c @ evs \<and>
      List.map_filter dispatch_of evs = [(active_representation P, ind)] \<and>
      (\<forall>e\<in>set evs. \<not> is_interpolationMatrix_call e \<and> \<not> is_ComputeSigmas_call e \<and>
          (\<forall>m. interp_arg e = Some m \<longrightarrow> m = im))"
  using assms
  by (auto simp: Response_landmark_def Let_def active_representation_def has_parameters_def
      List.map_filter_def
      split: Option.bind_splits if_splits prod.splits)

subsection \<open>The calls of \<open>Response\<close>\<close>

lemma Response_SomeD:
  assumes "Response X P resp img pdm pg pl ws scale = Some (resp', s1, s2, P1, calls)"
  shows "\<exists>view_id calls1 vis_lmk.
     GetViewIdx (centers P) pg scale = Some view_id \<and>
     (if ccnf_expert_intensity P \<noteq> [] then
        for_each (upto_n (NumberOfPoints X pdm))
          (ComputeSigmas_body X (select_sigma_components (sigma_components P) ws) ws scale view_id)
          (P, [])
      else Some (P, [])) = Some (P1, calls1) \<and>
     Collect_visible_landmarks P1 (visibilities P1) scale view_id (NumberOfPoints X pdm) = Some vis_lmk \<and>
     for_each vis_lmk
       (Response_landmark X P1 img (CalcShape2D X pdm pl pg) (Matx_00 s1) (- Matx_01 s1)
          (fst (precompute_interp_mat X (cen_expert_intensity P \<noteq> []) ws))
          ws scale view_id (NumberOfPoints X pdm))
       (resp, calls1 @ snd (precompute_interp_mat X (cen_expert_intensity P \<noteq> []) ws))
       = Some (resp', calls)"
  using assms unfolding Response_def Let_def
  by (auto split: Option.bind_splits prod.splits if_splits)

lemma map_filter_append: "List.map_filter f (xs @ ys) = List.map_filter f xs @ List.map_filter f ys"
  by (simp add: List.map_filter_def)

lemma map_filter_concat_single:
  "list_all2 (\<lambda>i evs. List.map_filter f evs = [g i] \<and> Q evs) js evss \<Longrightarrow>
   List.map_filter f (concat evss) = map g js"
  by (induction js evss rule: list_all2_induct) (simp_all add: map_filter_append List.map_filter_simps)


lemma map_filter_ComputeSigmas:
  "\<forall>e\<in>set cs. is_ComputeSigmas_call e \<Longrightarrow> List.map_filter dispatch_of cs = []"
proof (induction cs)
  case Nil
  then show ?case by (simp add: List.map_filter_simps)
next
  case (Cons a cs)
  then show ?case by (cases a) (simp_all add: List.map_filter_simps)
qed

lemma precompute_interp_mat_dispatch:
  "List.map_filter dispatch_of (snd (precompute_interp_mat X u ws)) = []"
  by (simp add: precompute_interp_mat_def Let_def List.map_filter_simps)

lemma Response_structure:
  assumes "Response X P resp img pdm pg pl ws scale = Some (resp', s1, s2, P1, calls)"
  shows "\<exists>view_id vis_lmk calls1 evss.
     GetViewIdx (centers P) pg scale = Some view_id \<and>
     Collect_visible_landmarks P (visibilities P) scale view_id (NumberOfPoints X pdm) = Some vis_lmk \<and>
     calls = calls1 @ snd (precompute_interp_mat X (cen_expert_intensity P \<noteq> []) ws) @ concat evss \<and>
     (\<forall>e\<in>set calls1. is_ComputeSigmas_call e) \<and>
     list_all2 (\<lambda>ind evs.
        List.map_filter dispatch_of evs = [(active_representation P, ind)] \<and>
        (\<forall>e\<in>set evs. \<not> is_interpolationMatrix_call e \<and> \<not> is_ComputeSigmas_call e \<and>
          (\<forall>m. interp_arg e = Some m \<longrightarrow>
                m = fst (precompute_interp_mat X (cen_expert_intensity P \<noteq> []) ws))))
       vis_lmk evss"
proof -
  let ?n = "NumberOfPoints X pdm"
  let ?im = "fst (precompute_interp_mat X (cen_expert_intensity P \<noteq> []) ws)"
  let ?c2 = "snd (precompute_interp_mat X (cen_expert_intensity P \<noteq> []) ws)"
  from Response_SomeD[OF assms] obtain view_id calls1 vis_lmk where
    v: "GetViewIdx (centers P) pg scale = Some view_id"
    and sg: "(if ccnf_expert_intensity P \<noteq> [] then
        for_each (upto_n ?n)
          (ComputeSigmas_body X (select_sigma_components (sigma_components P) ws) ws scale view_id)
          (P, [])
      else Some (P, [])) = Some (P1, calls1)"
    and col: "Collect_visible_landmarks P1 (visibilities P1) scale view_id ?n = Some vis_lmk"
    and loop: "for_each vis_lmk
       (Response_landmark X P1 img (CalcShape2D X pdm pl pg) (Matx_00 s1) (- Matx_01 s1) ?im
          ws scale view_id ?n) (resp, calls1 @ ?c2) = Some (resp', calls)"
    by blast
  have fr: "cen_expert_intensity P1 = cen_expert_intensity P \<and> visibilities P1 = visibilities P \<and>
     (ccnf_expert_intensity P1 = [] \<longleftrightarrow> ccnf_expert_intensity P = []) \<and>
     (\<forall>e\<in>set calls1. is_ComputeSigmas_call e)"
  proof (cases "ccnf_expert_intensity P \<noteq> []")
    case True
    with sg ComputeSigmas_phase_frame show ?thesis by (metis (no_types, lifting))
  next
    case False
    with sg show ?thesis by simp
  qed
  then have act: "active_representation P1 = active_representation P"
    by (simp add: active_representation_def)
  have col': "Collect_visible_landmarks P (visibilities P) scale view_id ?n = Some vis_lmk"
    using col fr Collect_cong[of P1 P] by simp
  have par: "\<forall>i\<in>set vis_lmk. cen_expert_intensity P1 \<noteq> [] \<and> view_id = 0 \<longrightarrow> has_parameters P1 scale 0 i"
    using Collect_Some[OF col] by blast
  have "\<exists>evss. calls = (calls1 @ ?c2) @ concat evss \<and>
      list_all2 (\<lambda>ind evs.
        List.map_filter dispatch_of evs = [(active_representation P1, ind)] \<and>
        (\<forall>e\<in>set evs. \<not> is_interpolationMatrix_call e \<and> \<not> is_ComputeSigmas_call e \<and>
          (\<forall>m. interp_arg e = Some m \<longrightarrow> m = ?im))) vis_lmk evss"
  proof (rule for_each_calls[OF loop])
    fix i r c r' c'
    assume i: "i \<in> set vis_lmk"
      and run: "Response_landmark X P1 img (CalcShape2D X pdm pl pg) (Matx_00 s1) (- Matx_01 s1) ?im
          ws scale view_id ?n i (r, c) = Some (r', c')"
    have "cen_expert_intensity P1 \<noteq> [] \<and> view_id = 0 \<longrightarrow> has_parameters P1 scale 0 i"
      using par i by simp
    from Response_landmark_calls[OF run this]
    show "\<exists>evs. c' = c @ evs \<and>
        List.map_filter dispatch_of evs = [(active_representation P1, i)] \<and>
        (\<forall>e\<in>set evs. \<not> is_interpolationMatrix_call e \<and> \<not> is_ComputeSigmas_call e \<and>
          (\<forall>m. interp_arg e = Some m \<longrightarrow> m = ?im))"
      .
  qed
  then show ?thesis using v col' fr act by auto
qed

lemma Response_dispatch:
  assumes "Response X P resp img pdm pg pl ws scale = Some (resp', s1, s2, P1, calls)"
  shows "\<exists>view_id vis_lmk.
     GetViewIdx (centers P) pg scale = Some view_id \<and>
     Collect_visible_landmarks P (visibilities P) scale view_id (NumberOfPoints X pdm) = Some vis_lmk \<and>
     List.map_filter dispatch_of calls = map (Pair (active_representation P)) vis_lmk"
proof -
  from Response_structure[OF assms] obtain view_id vis_lmk calls1 evss where
    s: "GetViewIdx (centers P) pg scale = Some view_id"
     "Collect_visible_landmarks P (visibilities P) scale view_id (NumberOfPoints X pdm) = Some vis_lmk"
     "calls = calls1 @ snd (precompute_interp_mat X (cen_expert_intensity P \<noteq> []) ws) @ concat evss"
     "\<forall>e\<in>set calls1. is_ComputeSigmas_call e"
     "list_all2 (\<lambda>ind evs.
        List.map_filter dispatch_of evs = [(active_representation P, ind)] \<and>
        (\<forall>e\<in>set evs. \<not> is_interpolationMatrix_call e \<and> \<not> is_ComputeSigmas_call e \<and>
          (\<forall>m. interp_arg e = Some m \<longrightarrow>
                m = fst (precompute_interp_mat X (cen_expert_intensity P \<noteq> []) ws))))
       vis_lmk evss"
    by blast
  have "List.map_filter dispatch_of calls = map (Pair (active_representation P)) vis_lmk"
    unfolding s(3) map_filter_append map_filter_ComputeSigmas[OF s(4)] precompute_interp_mat_dispatch
    using map_filter_concat_single[OF s(5)] by simp
  with s show ?thesis by blast
qed

lemma cen_run_Some: "cen_run \<noteq> None"
  by code_simp

lemma ccnf_run_Some: "ccnf_run \<noteq> None"
  by code_simp

lemma the_run:
  "r \<noteq> None \<Longrightarrow> r = Some (fst (the r), fst (snd (the r)), fst (snd (snd (the r))),
      fst (snd (snd (snd (the r)))), snd (snd (snd (snd (the r)))))"
  by (cases r) auto



subsection \<open>The responses of the CCNF experts\<close>

text \<open>
  Claim C10. In a run of \<open>Response\<close> with no CEN expert and with CCNF experts loaded,
  the entry \<open>patch_expert_responses[ind]\<close> that is returned for a landmark \<open>ind\<close> of
  \<open>vis_lmk\<close> is the result of \<open>Response\<close> of its CCNF expert on its own area of
  interest and a new \<open>window_size \<times> window_size\<close> matrix: the call of \<open>ResponseOB\<close>,
  which receives the local \<open>placeholder\<close>, and the printing of the norm change no
  entry. The entries of the other landmarks are those on entry.
\<close>

theorem Response_CCNF_responses:
  assumes run: "Response X P resp img pdm pg pl ws scale = Some (resp', s1, s2, P1, calls)"
    and cen: "cen_expert_intensity P = []" and ccnf: "ccnf_expert_intensity P \<noteq> []"
  shows "\<exists>view_id vis_lmk.
     GetViewIdx (centers P) pg scale = Some view_id \<and>
     Collect_visible_landmarks P (visibilities P) scale view_id (NumberOfPoints X pdm) = Some vis_lmk \<and>
     length resp' = length resp \<and>
     (\<forall>ind\<in>set vis_lmk. \<exists>e x y.
        at3 (ccnf_expert_intensity P1) scale view_id ind = Some e \<and>
        Mat_at (CalcShape2D X pdm pl pg) ind 0 = Some x \<and>
        Mat_at (CalcShape2D X pdm pl pg) (ind + NumberOfPoints X pdm) 0 = Some y \<and>
        resp' ! nat ind =
          CCNF_Response X e
            (cvGetQuadrangleSubPix X img
               (Mat_new X (ws + ccnf_height e - 1) (ws + ccnf_width e - 1))
               (sampling_transform (Matx_00 s1) (- Matx_01 s1) x y))
            (Mat_new X ws ws)) \<and>
     (\<forall>k. int k \<notin> set vis_lmk \<longrightarrow> resp' ! k = resp ! k)"
proof -
  let ?n = "NumberOfPoints X pdm"
  let ?ll = "CalcShape2D X pdm pl pg"
  let ?im = "fst (precompute_interp_mat X (cen_expert_intensity P \<noteq> []) ws)"
  let ?c2 = "snd (precompute_interp_mat X (cen_expert_intensity P \<noteq> []) ws)"
  from Response_SomeD[OF run] obtain view_id calls1 vis_lmk where
    v: "GetViewIdx (centers P) pg scale = Some view_id"
    and sg: "(if ccnf_expert_intensity P \<noteq> [] then
        for_each (upto_n ?n)
          (ComputeSigmas_body X (select_sigma_components (sigma_components P) ws) ws scale view_id)
          (P, [])
      else Some (P, [])) = Some (P1, calls1)"
    and col: "Collect_visible_landmarks P1 (visibilities P1) scale view_id ?n = Some vis_lmk"
    and loop: "for_each vis_lmk
       (Response_landmark X P1 img ?ll (Matx_00 s1) (- Matx_01 s1) ?im ws scale view_id ?n)
       (resp, calls1 @ ?c2) = Some (resp', calls)"
    by blast
  from sg ccnf have fr: "cen_expert_intensity P1 = cen_expert_intensity P"
    "visibilities P1 = visibilities P" "ccnf_expert_intensity P1 \<noteq> []"
    using ComputeSigmas_phase_frame[of "upto_n ?n" X _ ws scale view_id P P1 calls1] by simp_all
  have cen1: "cen_expert_intensity P1 = []" using fr cen by simp
  have col': "Collect_visible_landmarks P (visibilities P) scale view_id ?n = Some vis_lmk"
    using col fr Collect_cong[of P1 P] by simp
  have dist: "distinct vis_lmk" using Collect_Some[OF col] sorted_wrt_less_distinct by blast
  define val where "val ind =
     (case at3 (ccnf_expert_intensity P1) scale view_id ind of None \<Rightarrow> Mat_new X 0 0 | Some e \<Rightarrow>
      case Mat_at ?ll ind 0 of None \<Rightarrow> Mat_new X 0 0 | Some x \<Rightarrow>
      case Mat_at ?ll (ind + ?n) 0 of None \<Rightarrow> Mat_new X 0 0 | Some y \<Rightarrow>
        CCNF_Response X e
            (cvGetQuadrangleSubPix X img
               (Mat_new X (ws + ccnf_height e - 1) (ws + ccnf_width e - 1))
               (sampling_transform (Matx_00 s1) (- Matx_01 s1) x y))
            (Mat_new X ws ws))" for ind
  have body: "\<exists>e x y. at3 (ccnf_expert_intensity P1) scale view_id i = Some e \<and>
        Mat_at ?ll i 0 = Some x \<and> Mat_at ?ll (i + ?n) 0 = Some y \<and>
        0 \<le> i \<and> i < int (length r) \<and> r' = r[nat i := val i]"
    if "Response_landmark X P1 img ?ll (Matx_00 s1) (- Matx_01 s1) ?im ws scale view_id ?n i (r, c)
          = Some (r', c')" for i r c r' c'
    using Response_landmark_ccnf[OF cen1 fr(3) that] by (auto simp: val_def Let_def)
  have slots: "length resp' = length resp \<and> (\<forall>i\<in>set vis_lmk. resp' ! nat i = val i) \<and>
         (\<forall>k. int k \<notin> set vis_lmk \<longrightarrow> resp' ! k = resp ! k)"
    by (rule for_each_slots[OF loop dist]) (use body in blast)
  have "\<exists>e x y. at3 (ccnf_expert_intensity P1) scale view_id ind = Some e \<and>
        Mat_at ?ll ind 0 = Some x \<and> Mat_at ?ll (ind + ?n) 0 = Some y \<and>
        resp' ! nat ind =
          CCNF_Response X e
            (cvGetQuadrangleSubPix X img
               (Mat_new X (ws + ccnf_height e - 1) (ws + ccnf_width e - 1))
               (sampling_transform (Matx_00 s1) (- Matx_01 s1) x y))
            (Mat_new X ws ws)" if ind: "ind \<in> set vis_lmk" for ind
  proof -
    from for_each_ran[OF loop ind] obtain st st' where
      "Response_landmark X P1 img ?ll (Matx_00 s1) (- Matx_01 s1) ?im ws scale view_id ?n ind st
          = Some st'" by blast
    from body[of ind "fst st" "snd st" "fst st'" "snd st'"] this
    obtain e x y where "at3 (ccnf_expert_intensity P1) scale view_id ind = Some e"
        "Mat_at ?ll ind 0 = Some x" "Mat_at ?ll (ind + ?n) 0 = Some y" by auto
    moreover have "resp' ! nat ind = val ind" using slots ind by blast
    ultimately show ?thesis by (auto simp: val_def)
  qed
  with v col' slots show ?thesis by blast
qed

text \<open>Witness for C10: a CCNF store with three landmarks, of which 0 and 2 are
  visible.\<close>

theorem Response_CCNF_responses_witness:
  "ccnf_run \<noteq> None \<and> cen_expert_intensity ccnf_store = [] \<and> ccnf_expert_intensity ccnf_store \<noteq> [] \<and>
   fst (the ccnf_run) ! 0 =
     CCNF_Response example_externals ccnf_expert
       (cvGetQuadrangleSubPix example_externals ()
         (Mat_new example_externals 13 13) (sampling_transform 1 0 10 11))
       (Mat_new example_externals 3 3) \<and>
   fst (the ccnf_run) ! 1 = blank_responses ! 1"
proof -
  have c: "cen_expert_intensity ccnf_store = []" "ccnf_expert_intensity ccnf_store \<noteq> []"
    by (simp_all add: ccnf_store_def empty_store_def)
  note run = the_run[OF ccnf_run_Some, unfolded ccnf_run_def]
  from Response_CCNF_responses[OF run c] obtain view_id vis_lmk where
    v: "GetViewIdx (centers ccnf_store) (1, 0, 0, 0, 0, 0) 0 = Some view_id"
    and col: "Collect_visible_landmarks ccnf_store (visibilities ccnf_store) 0 view_id
               (NumberOfPoints example_externals ()) = Some vis_lmk"
    and vals: "\<forall>ind\<in>set vis_lmk. \<exists>e x y.
        at3 (ccnf_expert_intensity (fst (snd (snd (snd (the ccnf_run)))))) 0 view_id ind = Some e \<and>
        Mat_at (CalcShape2D example_externals () empty_Mat (1, 0, 0, 0, 0, 0)) ind 0 = Some x \<and>
        Mat_at (CalcShape2D example_externals () empty_Mat (1, 0, 0, 0, 0, 0))
           (ind + NumberOfPoints example_externals ()) 0 = Some y \<and>
        fst (the ccnf_run) ! nat ind =
          CCNF_Response example_externals e
            (cvGetQuadrangleSubPix example_externals ()
               (Mat_new example_externals (3 + ccnf_height e - 1) (3 + ccnf_width e - 1))
               (sampling_transform (Matx_00 (fst (snd (the ccnf_run))))
                  (- Matx_01 (fst (snd (the ccnf_run)))) x y))
            (Mat_new example_externals 3 3)"
    and frame: "\<forall>k. int k \<notin> set vis_lmk \<longrightarrow> fst (the ccnf_run) ! k = blank_responses ! k"
    unfolding ccnf_run_def by blast
  have v0: "GetViewIdx (centers ccnf_store) (1, 0, 0, 0, 0, 0) 0 = Some 0" by code_simp
  have "Collect_visible_landmarks ccnf_store (visibilities ccnf_store) 0 0
               (NumberOfPoints example_externals ()) = Some [0, 2]" by code_simp
  with v v0 col have vl: "view_id = 0" "vis_lmk = [0, 2]" by simp_all
  have e: "at3 (ccnf_expert_intensity (fst (snd (snd (snd (the ccnf_run)))))) 0 0 0 = Some ccnf_expert"
    by code_simp
  have x: "Mat_at (CalcShape2D example_externals () empty_Mat (1, 0, 0, 0, 0, 0)) 0 0 = Some 10"
    "Mat_at (CalcShape2D example_externals () empty_Mat (1, 0, 0, 0, 0, 0))
           (0 + NumberOfPoints example_externals ()) 0 = Some 11" by code_simp+
  have s: "Matx_00 (fst (snd (the ccnf_run))) = 1" "- Matx_01 (fst (snd (the ccnf_run))) = 0"
    by code_simp+
  have h: "3 + ccnf_height ccnf_expert - 1 = 13" "3 + ccnf_width ccnf_expert - 1 = 13"
    by (simp_all add: ccnf_expert_def)
  from vals vl e x s h have "fst (the ccnf_run) ! 0 =
     CCNF_Response example_externals ccnf_expert
       (cvGetQuadrangleSubPix example_externals ()
         (Mat_new example_externals 13 13) (sampling_transform 1 0 10 11))
       (Mat_new example_externals 3 3)" by auto
  moreover from frame vl have "fst (the ccnf_run) ! 1 = blank_responses ! 1" by simp
  ultimately show ?thesis using ccnf_run_Some c by blast
qed

subsection \<open>\<open>Read\<close> and the loaders\<close>

lemma read_double_Some: "read_double ts = Some (x, ts') \<Longrightarrow> ts = Tok_double x # ts'"
  by (erule read_double.elims) simp_all

lemma read_n_double:
  "read_n k read_double ts = Some (xs, ts') \<Longrightarrow> length xs = k \<and> ts = map Tok_double xs @ ts'"
proof (induction k arbitrary: ts xs)
  case 0
  then show ?case by simp
next
  case (Suc k)
  from Suc.prems obtain x t1 ys where
    a: "read_double ts = Some (x, t1)" "read_n k read_double t1 = Some (ys, ts')" "xs = x # ys"
    by (auto split: option.splits prod.splits)
  from Suc.IH[OF a(2)] read_double_Some[OF a(1)] a(3) show ?case by simp
qed

lemma Read_early_term_Some:
  assumes "Read_early_term fs early_term_loc P = Some P'"
  shows "centers P' = centers P \<and> cen_expert_intensity P' = cen_expert_intensity P \<and>
     ccnf_expert_intensity P' = ccnf_expert_intensity P \<and>
     svr_expert_intensity P' = svr_expert_intensity P \<and>
     (early_term_loc = [] \<longrightarrow> P' = P) \<and>
     (early_term_loc \<noteq> [] \<longrightarrow>
       (\<exists>c0 ws bs cs rest. vec_at (centers P) 0 = Some c0 \<and>
          length ws = length c0 \<and> length bs = length c0 \<and> length cs = length c0 \<and>
          (case fs early_term_loc of None \<Rightarrow> [] | Some ts \<Rightarrow> ts) = map Tok_double (ws @ bs @ cs) @ rest \<and>
          early_term_weights P' = early_term_weights P @ ws \<and>
          early_term_biases P' = early_term_biases P @ bs \<and>
          early_term_cutoffs P' = early_term_cutoffs P @ cs))"
proof (cases "early_term_loc = []")
  case True
  then show ?thesis using assms by (simp add: Read_early_term_def)
next
  case False
  let ?ts = "(case fs early_term_loc of None \<Rightarrow> [] | Some ts \<Rightarrow> ts)"
  from assms False obtain c0 ws t1 bs t2 cs t3 where
    c0: "vec_at (centers P) 0 = Some c0"
    and r1: "read_n (length c0) read_double ?ts = Some (ws, t1)"
    and r2: "read_n (length c0) read_double t1 = Some (bs, t2)"
    and r3: "read_n (length c0) read_double t2 = Some (cs, t3)"
    and P': "P' = P\<lparr>early_term_weights := early_term_weights P @ ws,
                  early_term_biases := early_term_biases P @ bs,
                  early_term_cutoffs := early_term_cutoffs P @ cs\<rparr>"
    unfolding Read_early_term_def Let_def
    by (auto split: Option.bind_splits prod.splits)
  from read_n_double[OF r1] read_n_double[OF r2] read_n_double[OF r3]
  have "length ws = length c0" "length bs = length c0" "length cs = length c0"
    "?ts = map Tok_double (ws @ bs @ cs) @ t3" by simp_all
  then show ?thesis using False c0 P' by auto
qed

lemma Read_SVR_scale_frame:
  assumes "Read_SVR_scale fs locs scale (P, out) = Some (P', out')"
  shows "cen_expert_intensity P' = cen_expert_intensity P \<and>
     ccnf_expert_intensity P' = ccnf_expert_intensity P \<and>
     early_term_weights P' = early_term_weights P \<and> early_term_biases P' = early_term_biases P \<and>
     early_term_cutoffs P' = early_term_cutoffs P"
  using assms unfolding Read_SVR_scale_def
  by (auto split: Option.bind_splits prod.splits)

lemma Read_CCNF_patch_experts_frame:
  assumes "Read_CCNF_patch_experts fs loc P c v e s = Some (outs, P', msg)"
  shows "cen_expert_intensity P' = cen_expert_intensity P \<and>
     ccnf_expert_intensity P' = ccnf_expert_intensity P \<and>
     centers P' = centers P \<and> visibilities P' = visibilities P \<and> patch_scaling P' = patch_scaling P \<and>
     early_term_weights P' = early_term_weights P \<and> early_term_biases P' = early_term_biases P \<and>
     early_term_cutoffs P' = early_term_cutoffs P"
  using assms unfolding Read_CCNF_patch_experts_def Let_def
  by (auto split: option.splits Option.bind_splits prod.splits if_splits)

lemma Read_CEN_patch_experts_frame:
  assumes "Read_CEN_patch_experts fs loc P c v e s = Some (outs, P', msg)"
  shows "cen_expert_intensity P' = cen_expert_intensity P \<and>
     ccnf_expert_intensity P' = ccnf_expert_intensity P \<and>
     centers P' = centers P \<and> visibilities P' = visibilities P \<and> patch_scaling P' = patch_scaling P \<and>
     early_term_weights P' = early_term_weights P \<and> early_term_biases P' = early_term_biases P \<and>
     early_term_cutoffs P' = early_term_cutoffs P"
  using assms unfolding Read_CEN_patch_experts_def Let_def
  by (auto split: option.splits Option.bind_splits prod.splits if_splits)

lemma Read_CCNF_scale_frame:
  assumes "Read_CCNF_scale fs locs scale (P, out) = Some (P', out')"
  shows "cen_expert_intensity P' = cen_expert_intensity P \<and>
     length (ccnf_expert_intensity P') = length (ccnf_expert_intensity P) \<and>
     early_term_weights P' = early_term_weights P \<and> early_term_biases P' = early_term_biases P \<and>
     early_term_cutoffs P' = early_term_cutoffs P"
proof -
  from assms obtain outs P1 msg loc c v e s where
    l: "Read_CCNF_patch_experts fs loc P c v e s = Some (outs, P1, msg)"
    and P': "P' = P1\<lparr>centers := (centers P1)[nat scale := fst outs],
                 visibilities := (visibilities P1)[nat scale := fst (snd outs)],
                 ccnf_expert_intensity := (ccnf_expert_intensity P1)[nat scale := fst (snd (snd outs))],
                 patch_scaling := (patch_scaling P1)[nat scale := snd (snd (snd outs))]\<rparr>"
    unfolding Read_CCNF_scale_def
    by (auto split: Option.bind_splits prod.splits)
  from Read_CCNF_patch_experts_frame[OF l] P' show ?thesis by simp
qed

lemma Read_CEN_scale_frame:
  assumes "Read_CEN_scale fs locs scale (P, out) = Some (P', out')"
  shows "length (cen_expert_intensity P') = length (cen_expert_intensity P) \<and>
     ccnf_expert_intensity P' = ccnf_expert_intensity P \<and>
     early_term_weights P' = early_term_weights P \<and> early_term_biases P' = early_term_biases P \<and>
     early_term_cutoffs P' = early_term_cutoffs P"
proof -
  from assms obtain outs P1 msg loc c v e s where
    l: "Read_CEN_patch_experts fs loc P c v e s = Some (outs, P1, msg)"
    and P': "P' = P1\<lparr>centers := (centers P1)[nat scale := fst outs],
                 visibilities := (visibilities P1)[nat scale := fst (snd outs)],
                 cen_expert_intensity := (cen_expert_intensity P1)[nat scale := fst (snd (snd outs))],
                 patch_scaling := (patch_scaling P1)[nat scale := snd (snd (snd outs))]\<rparr>"
    unfolding Read_CEN_scale_def
    by (auto split: Option.bind_splits prod.splits)
  from Read_CEN_patch_experts_frame[OF l] P' show ?thesis by simp
qed

lemma Read_SomeD:
  assumes "Read fs P svr_locs ccnf_locs cen_locs early_term_loc = Some (P', out)"
  shows "\<exists>P3. Read_early_term fs early_term_loc P3 = Some P' \<and>
     early_term_weights P3 = early_term_weights P \<and> early_term_biases P3 = early_term_biases P \<and>
     early_term_cutoffs P3 = early_term_cutoffs P \<and>
     (if cen_locs = [] then cen_expert_intensity P3 = cen_expert_intensity P
      else length (cen_expert_intensity P3) = length cen_locs) \<and>
     (if ccnf_locs = [] then ccnf_expert_intensity P3 = ccnf_expert_intensity P
      else length (ccnf_expert_intensity P3) = length ccnf_locs)"
proof -
  define Pa where "Pa = P\<lparr>centers := resize (length svr_locs) [] (centers P),
                 visibilities := resize (length svr_locs) [] (visibilities P),
                 patch_scaling := resize (length svr_locs) 0 (patch_scaling P),
                 svr_expert_intensity := resize (length svr_locs) [] (svr_expert_intensity P)\<rparr>"
  define resize_ccnf where "resize_ccnf Q = (if length ccnf_locs > 0
                then Q\<lparr>centers := resize (length ccnf_locs) [] (centers Q),
                       visibilities := resize (length ccnf_locs) [] (visibilities Q),
                       patch_scaling := resize (length ccnf_locs) 0 (patch_scaling Q),
                       ccnf_expert_intensity := resize (length ccnf_locs) [] (ccnf_expert_intensity Q)\<rparr>
                else Q)" for Q :: "'a store"
  define resize_cen where "resize_cen Q = (if length cen_locs > 0
                then Q\<lparr>centers := resize (length cen_locs) [] (centers Q),
                       visibilities := resize (length cen_locs) [] (visibilities Q),
                       patch_scaling := resize (length cen_locs) 0 (patch_scaling Q),
                       cen_expert_intensity := resize (length cen_locs) [] (cen_expert_intensity Q)\<rparr>
                else Q)" for Q :: "'a store"
  from assms obtain P1 o1 P2 o2 P3 where
    ph1: "for_each (upto_n (int (length svr_locs))) (Read_SVR_scale fs svr_locs) (Pa, []) = Some (P1, o1)"
    and ph2: "for_each (upto_n (int (length ccnf_locs))) (Read_CCNF_scale fs ccnf_locs) (resize_ccnf P1, o1) = Some (P2, o2)"
    and ph3: "for_each (upto_n (int (length cen_locs))) (Read_CEN_scale fs cen_locs) (resize_cen P2, o2) = Some (P3, out)"
    and ph4: "Read_early_term fs early_term_loc P3 = Some P'"
    unfolding Read_def Let_def Pa_def resize_ccnf_def resize_cen_def
    by (auto split: Option.bind_splits prod.splits)
  let ?g = "\<lambda>Q. (cen_expert_intensity Q, ccnf_expert_intensity Q, early_term_weights Q,
                  early_term_biases Q, early_term_cutoffs Q)"
  have f1: "?g P1 = ?g Pa"
    by (rule for_each_frame[OF ph1]) (use Read_SVR_scale_frame in fastforce)
  let ?g2 = "\<lambda>Q. (cen_expert_intensity Q, length (ccnf_expert_intensity Q), early_term_weights Q,
                  early_term_biases Q, early_term_cutoffs Q)"
  have f2: "?g2 P2 = ?g2 (resize_ccnf P1)"
    by (rule for_each_frame[OF ph2]) (use Read_CCNF_scale_frame in fastforce)
  let ?g3 = "\<lambda>Q. (length (cen_expert_intensity Q), ccnf_expert_intensity Q, early_term_weights Q,
                  early_term_biases Q, early_term_cutoffs Q)"
  have f3: "?g3 P3 = ?g3 (resize_cen P2)"
    by (rule for_each_frame[OF ph3]) (use Read_CEN_scale_frame in fastforce)
  have P2eq: "cen_locs = [] \<Longrightarrow> P3 = P2" "ccnf_locs = [] \<Longrightarrow> P2 = P1"
    using ph3 ph2 by (simp_all add: upto_n_def resize_cen_def resize_ccnf_def)
  have len: "length (resize n d xs) = n" for n and d :: 'b and xs
    by (simp add: resize_def)
  show ?thesis
    using ph4 f1 f2 f3 P2eq
    by (auto simp: Pa_def resize_ccnf_def resize_cen_def len split: if_splits)
qed

lemma Read_collections:
  assumes "Read fs Q svr_locs ccnf_locs cen_locs early_term_loc = Some (Q', out)"
  shows "(cen_locs \<noteq> [] \<longrightarrow> cen_expert_intensity Q' \<noteq> []) \<and>
     (ccnf_locs \<noteq> [] \<longrightarrow> ccnf_expert_intensity Q' \<noteq> []) \<and>
     (cen_locs = [] \<longrightarrow> cen_expert_intensity Q' = cen_expert_intensity Q) \<and>
     (ccnf_locs = [] \<longrightarrow> ccnf_expert_intensity Q' = ccnf_expert_intensity Q)"
proof -
  from Read_SomeD[OF assms] obtain P3 where
    e: "Read_early_term fs early_term_loc P3 = Some Q'"
    and c: "if cen_locs = [] then cen_expert_intensity P3 = cen_expert_intensity Q
      else length (cen_expert_intensity P3) = length cen_locs"
     "if ccnf_locs = [] then ccnf_expert_intensity P3 = ccnf_expert_intensity Q
      else length (ccnf_expert_intensity P3) = length ccnf_locs"
    by blast
  from Read_early_term_Some[OF e] have
    "cen_expert_intensity Q' = cen_expert_intensity P3"
    "ccnf_expert_intensity Q' = ccnf_expert_intensity P3" by simp_all
  then show ?thesis using c by (auto split: if_splits)
qed

lemma example_load_Some: "example_load \<noteq> None"
  by code_simp

lemma the_load: "r \<noteq> None \<Longrightarrow> r = Some (fst (the r), snd (the r))"
  by (cases r) auto

text \<open>
  Claim C4. In every run of \<open>Response\<close>, the calls that fill the response maps are, in
  order, one call for each landmark of \<open>vis_lmk\<close>: a CEN call if the CEN collection is
  not empty (whatever the other collections hold), otherwise a CCNF call if the CCNF
  collection is not empty, otherwise an SVR call. After \<open>Read\<close> with at least one CEN
  path the active representation is CEN; with no CEN path and at least one CCNF path on
  a store without CEN experts it is CCNF; with SVR paths only on a store without CCNF
  and CEN experts it is SVR.
\<close>

theorem representation_priority:
  "(Response X P resp img pdm pg pl ws scale = Some (resp', s1, s2, P1, calls) \<longrightarrow>
      (\<exists>view_id vis_lmk.
         GetViewIdx (centers P) pg scale = Some view_id \<and>
         Collect_visible_landmarks P (visibilities P) scale view_id (NumberOfPoints X pdm)
           = Some vis_lmk \<and>
         (cen_expert_intensity P \<noteq> [] \<longrightarrow>
            List.map_filter dispatch_of calls = map (Pair CEN) vis_lmk) \<and>
         (cen_expert_intensity P = [] \<and> ccnf_expert_intensity P \<noteq> [] \<longrightarrow>
            List.map_filter dispatch_of calls = map (Pair CCNF) vis_lmk) \<and>
         (cen_expert_intensity P = [] \<and> ccnf_expert_intensity P = [] \<longrightarrow>
            List.map_filter dispatch_of calls = map (Pair SVR) vis_lmk))) \<and>
   (Read fs Q svr_locs ccnf_locs cen_locs early_term_loc = Some (Q', out) \<longrightarrow>
      (cen_locs \<noteq> [] \<longrightarrow> active_representation Q' = CEN) \<and>
      (cen_locs = [] \<and> cen_expert_intensity Q = [] \<and> ccnf_locs \<noteq> [] \<longrightarrow>
         active_representation Q' = CCNF) \<and>
      (cen_locs = [] \<and> ccnf_locs = [] \<and> cen_expert_intensity Q = [] \<and>
       ccnf_expert_intensity Q = [] \<longrightarrow> active_representation Q' = SVR))"
proof (intro conjI impI)
  assume "Response X P resp img pdm pg pl ws scale = Some (resp', s1, s2, P1, calls)"
  from Response_dispatch[OF this] show "\<exists>view_id vis_lmk.
         GetViewIdx (centers P) pg scale = Some view_id \<and>
         Collect_visible_landmarks P (visibilities P) scale view_id (NumberOfPoints X pdm)
           = Some vis_lmk \<and>
         (cen_expert_intensity P \<noteq> [] \<longrightarrow>
            List.map_filter dispatch_of calls = map (Pair CEN) vis_lmk) \<and>
         (cen_expert_intensity P = [] \<and> ccnf_expert_intensity P \<noteq> [] \<longrightarrow>
            List.map_filter dispatch_of calls = map (Pair CCNF) vis_lmk) \<and>
         (cen_expert_intensity P = [] \<and> ccnf_expert_intensity P = [] \<longrightarrow>
            List.map_filter dispatch_of calls = map (Pair SVR) vis_lmk)"
    by (auto simp: active_representation_def)
next
  assume r: "Read fs Q svr_locs ccnf_locs cen_locs early_term_loc = Some (Q', out)"
  {
    assume "cen_locs \<noteq> []"
    then show "active_representation Q' = CEN"
      using Read_collections[OF r] by (simp add: active_representation_def)
  next
    assume "cen_locs = [] \<and> cen_expert_intensity Q = [] \<and> ccnf_locs \<noteq> []"
    then show "active_representation Q' = CCNF"
      using Read_collections[OF r] by (simp add: active_representation_def)
  next
    assume "cen_locs = [] \<and> ccnf_locs = [] \<and> cen_expert_intensity Q = [] \<and>
       ccnf_expert_intensity Q = []"
    then show "active_representation Q' = SVR"
      using Read_collections[OF r] by (simp add: active_representation_def)
  }
qed

text \<open>Witness for C4: \<open>Response\<close> on the example store, and \<open>Read\<close> of an SVR and a
  CEN file.\<close>

theorem representation_priority_witness:
  "cen_run \<noteq> None \<and> example_load \<noteq> None \<and>
   List.map_filter dispatch_of (snd (snd (snd (snd (the cen_run))))) = [(CEN, 0), (CEN, 1)] \<and>
   active_representation (fst (the example_load)) = CEN"
proof -
  note run = the_run[OF cen_run_Some, unfolded cen_run_def]
  note load = the_load[OF example_load_Some, unfolded example_load_def]
  note inst = representation_priority[of example_externals cen_store blank_responses "()" "()" "(1, 0, 0, 0, 0, 0)"
      empty_Mat 3 0 _ _ _ _ _ example_files empty_store "[''svr.txt'']" "[]" "[''cen.dat'']"
      "''early.txt''"]
  from inst run obtain view_id vis_lmk where
    v: "GetViewIdx (centers cen_store) (1, 0, 0, 0, 0, 0) 0 = Some view_id"
    and col: "Collect_visible_landmarks cen_store (visibilities cen_store) 0 view_id
               (NumberOfPoints example_externals ()) = Some vis_lmk"
    and d: "cen_expert_intensity cen_store \<noteq> [] \<longrightarrow>
       List.map_filter dispatch_of (snd (snd (snd (snd (the cen_run))))) = map (Pair CEN) vis_lmk"
    unfolding cen_run_def by blast
  have v0: "GetViewIdx (centers cen_store) (1, 0, 0, 0, 0, 0) 0 = Some 0" by code_simp
  have "Collect_visible_landmarks cen_store (visibilities cen_store) 0 0
               (NumberOfPoints example_externals ()) = Some [0, 1]" by code_simp
  with v v0 col have vl: "vis_lmk = [0, 1]" by simp
  have c: "cen_expert_intensity cen_store \<noteq> []" by (simp add: cen_store_def)
  from inst load have "active_representation (fst (the example_load)) = CEN"
    unfolding example_load_def by blast
  with d c vl cen_run_Some example_load_Some show ?thesis by simp
qed




subsection \<open>The early termination parameters\<close>

lemma length_2E: "length xs = 2 \<Longrightarrow> \<exists>a b. xs = [a, b]"
  by (cases xs; cases "tl xs") auto

text \<open>
  Claim C7, as amended. \<open>Read\<close> leaves the three early termination arrays as they were
  if \<open>early_term_loc\<close> is empty. Otherwise it appends to each of them one value for
  each view of scale 0 (\<open>centers[0].size()\<close> values, not one for each landmark), read
  from the file in the order all weights, all biases, all cutoffs.
\<close>

theorem Read_early_termination:
  assumes "Read fs P svr_locs ccnf_locs cen_locs early_term_loc = Some (P', out)"
  shows "(early_term_loc = [] \<longrightarrow>
       early_term_weights P' = early_term_weights P \<and>
       early_term_biases P' = early_term_biases P \<and>
       early_term_cutoffs P' = early_term_cutoffs P) \<and>
     (early_term_loc \<noteq> [] \<longrightarrow>
       (\<exists>c0 ws bs cs rest. vec_at (centers P') 0 = Some c0 \<and>
          length ws = length c0 \<and> length bs = length c0 \<and> length cs = length c0 \<and>
          (case fs early_term_loc of None \<Rightarrow> [] | Some ts \<Rightarrow> ts)
             = map Tok_double (ws @ bs @ cs) @ rest \<and>
          early_term_weights P' = early_term_weights P @ ws \<and>
          early_term_biases P' = early_term_biases P @ bs \<and>
          early_term_cutoffs P' = early_term_cutoffs P @ cs))"
proof -
  from Read_SomeD[OF assms] obtain P3 where
    e: "Read_early_term fs early_term_loc P3 = Some P'"
    and w: "early_term_weights P3 = early_term_weights P"
      "early_term_biases P3 = early_term_biases P" "early_term_cutoffs P3 = early_term_cutoffs P"
    by blast
  from Read_early_term_Some[OF e] w show ?thesis by auto
qed

text \<open>Witness for C7: a model with two views and six values in the early termination
  file.\<close>

theorem Read_early_termination_witness:
  "example_load \<noteq> None \<and>
   early_term_weights (fst (the example_load)) = [1, 2] \<and>
   early_term_biases (fst (the example_load)) = [3, 4] \<and>
   early_term_cutoffs (fst (the example_load)) = [5, 6]"
proof -
  have load: "Read example_files empty_store [''svr.txt''] [] [''cen.dat''] ''early.txt''
      = Some (fst (the example_load), snd (the example_load))"
    unfolding example_load_def[symmetric] by (rule the_load[OF example_load_Some])
  have ne: "''early.txt'' \<noteq> []" by simp
  from Read_early_termination[OF load, THEN conjunct2, THEN mp, OF ne] obtain c0 ws bs cs rest where
    all: "vec_at (centers (fst (the example_load))) 0 = Some c0 \<and>
      length ws = length c0 \<and> length bs = length c0 \<and> length cs = length c0 \<and>
      (case example_files ''early.txt'' of None \<Rightarrow> [] | Some ts \<Rightarrow> ts)
             = map Tok_double (ws @ bs @ cs) @ rest \<and>
      early_term_weights (fst (the example_load)) = early_term_weights (empty_store :: unit store) @ ws \<and>
      early_term_biases (fst (the example_load)) = early_term_biases (empty_store :: unit store) @ bs \<and>
      early_term_cutoffs (fst (the example_load)) = early_term_cutoffs (empty_store :: unit store) @ cs"
    by blast
  from all have c0: "vec_at (centers (fst (the example_load))) 0 = Some c0"
    and len: "length ws = length c0" "length bs = length c0" "length cs = length c0"
    and toks: "(case example_files ''early.txt'' of None \<Rightarrow> [] | Some ts \<Rightarrow> ts)
             = map Tok_double (ws @ bs @ cs) @ rest"
    and w: "early_term_weights (fst (the example_load)) = early_term_weights (empty_store :: unit store) @ ws"
      "early_term_biases (fst (the example_load)) = early_term_biases (empty_store :: unit store) @ bs"
      "early_term_cutoffs (fst (the example_load)) = early_term_cutoffs (empty_store :: unit store) @ cs"
    by simp_all
  have "map_option length (vec_at (centers (fst (the example_load))) 0) = Some 2" by code_simp
  with c0 have l2: "length c0 = 2" by simp
  have f: "(case example_files ''early.txt'' of None \<Rightarrow> [] | Some ts \<Rightarrow> ts) =
     map Tok_double [1, 2, 3, 4, 5, 6]" by (simp add: example_files_def)
  from len l2 length_2E[of ws] length_2E[of bs] length_2E[of cs] obtain w1 w2 b1 b2 c1 c2 where
    "ws = [w1, w2]" "bs = [b1, b2]" "cs = [c1, c2]"
    by auto
  with toks f have "ws = [1, 2]" "bs = [3, 4]" "cs = [5, 6]" by simp_all
  with w example_load_Some show ?thesis by (simp add: empty_store_def)
qed

text \<open>Counterexample to C7 as stated: the loaded model has three landmarks in each of
  its two views, and each early termination array has two entries.\<close>

theorem Read_early_termination_counterexample:
  "example_load \<noteq> None \<and>
   map rows (hd (visibilities (fst (the example_load)))) = [3, 3] \<and>
   map length (hd (cen_expert_intensity (fst (the example_load)))) = [3, 3] \<and>
   length (early_term_weights (fst (the example_load))) = 2 \<and>
   length (early_term_biases (fst (the example_load))) = 2 \<and>
   length (early_term_cutoffs (fst (the example_load))) = 2"
  by code_simp

subsection \<open>The copy constructor\<close>

text \<open>
  Claim C6 fails on the code for \<open>mirror_inds\<close> (and \<open>mirror_views\<close>): the copy
  constructor copies these two matrices in its initialiser list, which shares the
  element block, and clones only \<open>sigma_components\<close> and \<open>visibilities\<close>. On the
  example store the copy's \<open>mirror_inds\<close> has the address of the original's; an
  assignment to element 1 through the copy changes what the original reads there from 2
  to 7. The visibility matrix of the copy has an address of its own, and the same
  assignment through it leaves the original's element at 1.
\<close>

theorem copy_shares_mirror_inds:
  "data (mirror_inds (fst copied)) = data (mirror_inds heap_store) \<and>
   heap_at (snd copied) (mirror_inds heap_store) 1 = Some 2 \<and>
   heap_at (heap_assign (snd copied) (mirror_inds (fst copied)) 1 7) (mirror_inds heap_store) 1 = Some 7 \<and>
   data (hd (hd (visibilities (fst copied)))) \<noteq> data (hd (hd (visibilities heap_store))) \<and>
   heap_at (heap_assign (snd copied) (hd (hd (visibilities (fst copied)))) 1 7)
     (hd (hd (visibilities heap_store))) 1 = Some 1"
  by code_simp

end
